theory Spec2Isabelle
  imports Complex_Main
begin

section \<open>JavaScript values used by the analysis code\<close>

text \<open>
  The report pipeline is JavaScript. Its numbers are IEEE doubles; the model keeps the
  special values that the analysed code can produce (\<open>NaN\<close> from a failed parse or an
  out-of-range array read, the infinities from a division by zero) and reads every finite
  double as the real number it denotes. Binary rounding and the sign of zero are outside
  the model.
\<close>

datatype jsnum = Num real | NaN | PInf | NInf

text \<open>The relational operator \<open>a > b\<close>: false as soon as one side is \<open>NaN\<close>.\<close>

fun js_gt :: "jsnum \<Rightarrow> jsnum \<Rightarrow> bool" where
  "js_gt (Num a) (Num b) = (a > b)"
| "js_gt NaN _ = False"
| "js_gt _ NaN = False"
| "js_gt PInf PInf = False"
| "js_gt PInf _ = True"
| "js_gt NInf _ = False"
| "js_gt (Num a) NInf = True"
| "js_gt (Num a) PInf = False"

text \<open>The operator \<open>a / b\<close> where both operands are finite or \<open>NaN\<close>.\<close>

fun js_div :: "jsnum \<Rightarrow> real \<Rightarrow> jsnum" where
  "js_div (Num a) b =
     (if b \<noteq> 0 then Num (a / b) else if a > 0 then PInf else if a < 0 then NInf else NaN)"
| "js_div NaN b = NaN"
| "js_div PInf b = (if b < 0 then NInf else PInf)"
| "js_div NInf b = (if b < 0 then PInf else NInf)"

text \<open>
  A value read from a Datadog point list is a number or \<open>null\<close>. In a comparison
  \<open>null\<close> converts to \<open>0\<close>.
\<close>

type_synonym jsvalue = "real option"

definition toNumber :: "jsvalue \<Rightarrow> real" where
  "toNumber v = (case v of None \<Rightarrow> 0 | Some x \<Rightarrow> x)"

subsection \<open>The regular expressions of the source\<close>

text \<open>
  Both regular expressions of the analysed code have the shape
  \<open>/key:([class]+)/\<close>: the leftmost position where the literal key is followed by at
  least one character of the class matches, and the group captures the longest run of
  class characters after the key.
\<close>

fun matchAfterKey :: "string \<Rightarrow> (char \<Rightarrow> bool) \<Rightarrow> string \<Rightarrow> string option" where
  "matchAfterKey key cls [] = None"
| "matchAfterKey key cls (c # cs) =
     (if take (length key) (c # cs) = key \<and> takeWhile cls (drop (length key) (c # cs)) \<noteq> []
      then Some (takeWhile cls (drop (length key) (c # cs)))
      else matchAfterKey key cls cs)"

definition isDigit :: "char \<Rightarrow> bool" where
  "isDigit c = (c \<in> set ''0123456789'')"

definition isWordChar :: "char \<Rightarrow> bool" where
  "isWordChar c = (c \<in> set ''abcdefghijklmnopqrstuvwxyzABCDEFGHIJKLMNOPQRSTUVWXYZ'' \<or> isDigit c
     \<or> c = CHR ''_'')"

text \<open>\<open>/resource_name:([^,}]+)/\<close> and \<open>/pod_name:([\w-]+)/\<close>.\<close>

definition matchResourceName :: "string \<Rightarrow> string option" where
  "matchResourceName s =
     matchAfterKey ''resource_name:'' (\<lambda>c. c \<noteq> CHR '','' \<and> c \<noteq> CHR ''}'') s"

definition matchPodName :: "string \<Rightarrow> string option" where
  "matchPodName s = matchAfterKey ''pod_name:'' (\<lambda>c. isWordChar c \<or> c = CHR ''-'') s"

section \<open>The metric fetcher: \<open>fetchdatadogmetrics.js\<close>\<close>

text \<open>
  A series of a Datadog query response: the fields the code reads. A point is the pair
  \<open>[timestamp, value]\<close>, the timestamp in epoch milliseconds.
\<close>

record dd_series =
  scope :: "string option"
  expression :: string
  pointlist :: "(int \<times> jsvalue) list option"

record dd_response =
  series :: "dd_series list option"

text \<open>
  The errors that the specification names for the calculators. The source has no
  \<open>throw\<close> in these functions, so every path of the model below ends in \<open>Inr\<close>.
\<close>

datatype calc_error = EmptyInputError | InvalidWindowError

text \<open>
  \<open>Math.floor(sorted.length * 0.95)\<close> and \<open>Math.floor(sorted.length * 0.99)\<close>. The
  double product rounds to the integer whenever the exact product is one and keeps the
  integer part otherwise, so the index is the integer quotient.
\<close>

definition percentileIndex :: "nat \<Rightarrow> nat \<Rightarrow> nat" where
  "percentileIndex n pct = (n * pct) div 100"

text \<open>Reading \<open>sorted[index] * 1000\<close>: out of range the read is \<open>undefined\<close>, the product \<open>NaN\<close>.\<close>

definition scaledAt :: "real list \<Rightarrow> nat \<Rightarrow> jsnum" where
  "scaledAt sortedVals index =
     (if index < length sortedVals then Num (sortedVals ! index * 1000) else NaN)"

text \<open>
  The aggregation chain of \<open>extractByResource\<close> (lines 163-178), run on the values
  that survived the \<open>null\<close> filter. \<open>[...values].sort((a, b) => a - b)\<close> is the ascending
  sort.
\<close>

definition aggregateValues :: "string \<Rightarrow> real list \<Rightarrow> jsnum" where
  "aggregateValues aggregationType values =
     (if aggregationType = ''sum'' then Num (foldl (+) 0 values)
      else if aggregationType = ''p95'' then
        (let sortedVals = sort values; index = percentileIndex (length sortedVals) 95
         in scaledAt sortedVals index)
      else if aggregationType = ''p99'' then
        (let sortedVals = sort values; index = percentileIndex (length sortedVals) 99
         in scaledAt sortedVals index)
      else if aggregationType = ''rate'' then
        js_div (Num (foldl (+) 0 values)) (real (length values))
      else js_div (Num (foldl (+) 0 values)) (real (length values)))"

text \<open>
  The callback of \<open>data.series.forEach\<close> (lines 148-182): it returns the updated
  \<open>byResource\<close> object. The two early exits (no points, no value left after the filter)
  leave the object as it was.
\<close>

definition extractSeries ::
  "string \<Rightarrow> (string \<rightharpoonup> jsnum) \<Rightarrow> dd_series \<Rightarrow> (string \<rightharpoonup> jsnum)" where
  "extractSeries aggregationType byResource s =
     (let resourceName =
            (case scope s of
               None \<Rightarrow> ''unknown''
             | Some sc \<Rightarrow> (if sc = [] then ''unknown''
                          else case matchResourceName sc of
                                 None \<Rightarrow> ''unknown''
                               | Some m \<Rightarrow> m))
      in case pointlist s of
           None \<Rightarrow> byResource
         | Some pl \<Rightarrow>
             (if length pl > 0 then
                (let values = map the (filter (\<lambda>v. v \<noteq> None) (map snd pl))
                 in if length values = 0 then byResource
                    else byResource(resourceName \<mapsto> aggregateValues aggregationType values))
              else byResource))"

definition extractByResource ::
  "dd_response option \<Rightarrow> string \<Rightarrow> calc_error + (string \<rightharpoonup> jsnum)" where
  "extractByResource data aggregationType =
     (case data of
        None \<Rightarrow> Inr Map.empty
      | Some d \<Rightarrow>
          (case series d of
             None \<Rightarrow> Inr Map.empty
           | Some ss \<Rightarrow>
               (if length ss = 0 then Inr Map.empty
                else Inr (foldl (extractSeries aggregationType) Map.empty ss))))"

text \<open>
  The rate of the endpoint table (line 308 of \<open>fetchEndpointMetricsTable\<close>):
  \<open>totalTimeSeconds > 0 ? requests / totalTimeSeconds : 0\<close>. Both operands are finite
  numbers here; a window that is \<open>NaN\<close> fails the comparison and gives \<open>0\<close> as well.
\<close>

definition actualRate :: "real \<Rightarrow> real \<Rightarrow> calc_error + real" where
  "actualRate requests totalTimeSeconds =
     Inr (if totalTimeSeconds > 0 then requests / totalTimeSeconds else 0)"

section \<open>Number and string built-ins called by the report generator\<close>

text \<open>
  Strings are lists of 8-bit characters; the two non-ASCII characters of the source's
  literals are written as their UTF-8 bytes.
\<close>

definition bullet :: string where
  "bullet = [CHR 0xE2, CHR 0x80, CHR 0xA2]"

definition checkMark :: string where
  "checkMark = [CHR 0xE2, CHR 0x9C, CHR 0x85]"

definition dquote :: string where
  "dquote = [CHR 0x22]"

text \<open>\<open>Array.prototype.join\<close>.\<close>

fun joinWith :: "string \<Rightarrow> string list \<Rightarrow> string" where
  "joinWith sep [] = []"
| "joinWith sep [x] = x"
| "joinWith sep (x # y # ys) = x @ sep @ joinWith sep (y # ys)"

text \<open>\<open>String.prototype.includes\<close>.\<close>

fun includesStr :: "string \<Rightarrow> string \<Rightarrow> bool" where
  "includesStr [] sub = (sub = [])"
| "includesStr (c # cs) sub = (take (length sub) (c # cs) = sub \<or> includesStr cs sub)"

text \<open>
  The decimal text of an integer: what a template literal prints for an integer-valued
  number below \<open>10^21\<close> in magnitude.
\<close>

definition digitChar :: "nat \<Rightarrow> char" where
  "digitChar n = ''0123456789'' ! n"

function showNat :: "nat \<Rightarrow> string" where
  "showNat n = (if n < 10 then [digitChar n] else showNat (n div 10) @ [digitChar (n mod 10)])"
  by pat_completeness auto
termination
  by (relation "measure id") auto

declare showNat.simps [simp del]

definition showInt :: "int \<Rightarrow> string" where
  "showInt i = (if i < 0 then ''-'' @ showNat (nat (- i)) else showNat (nat i))"

text \<open>An integer-valued number or \<open>NaN\<close> (\<open>None\<close>), as \<open>parseInt\<close> returns it.\<close>

type_synonym jsint = "int option"

definition showJsInt :: "jsint \<Rightarrow> string" where
  "showJsInt n = (case n of None \<Rightarrow> ''NaN'' | Some i \<Rightarrow> showInt i)"

definition addJsInt :: "jsint \<Rightarrow> jsint \<Rightarrow> jsint" where
  "addJsInt a b = (case a of None \<Rightarrow> None | Some x \<Rightarrow> (case b of None \<Rightarrow> None | Some y \<Rightarrow> Some (x + y)))"

definition positiveJsInt :: "jsint \<Rightarrow> bool" where
  "positiveJsInt n = (case n of None \<Rightarrow> False | Some i \<Rightarrow> i > 0)"

text \<open>
  \<open>parseInt(string)\<close> without a radix: leading white space is skipped, a sign is read,
  the prefix \<open>0x\<close> selects radix 16, and the longest run of digits is the value; no digit
  gives \<open>NaN\<close>.
\<close>

definition isWhiteSpace :: "char \<Rightarrow> bool" where
  "isWhiteSpace c = (c \<in> set [CHR '' '', CHR 0x09, CHR 0x0A, CHR 0x0B, CHR 0x0C, CHR 0x0D])"

definition digitValue :: "char \<Rightarrow> nat" where
  "digitValue c =
     (let lower = length (takeWhile (\<lambda>d. d \<noteq> c) ''0123456789abcdef'')
      in if lower < 16 then lower
         else 10 + length (takeWhile (\<lambda>d. d \<noteq> c) ''ABCDEF''))"

definition isHexDigit :: "char \<Rightarrow> bool" where
  "isHexDigit c = (isDigit c \<or> c \<in> set ''abcdefABCDEF'')"

definition digitsValue :: "nat \<Rightarrow> string \<Rightarrow> nat" where
  "digitsValue radix ds = foldl (\<lambda>acc c. acc * radix + digitValue c) 0 ds"

definition stripSign :: "string \<Rightarrow> bool \<times> string" where
  "stripSign s =
     (case s of
        [] \<Rightarrow> (False, [])
      | c # r \<Rightarrow> (if c = CHR ''-'' then (True, r) else if c = CHR ''+'' then (False, r)
                  else (False, s)))"

definition parseInt :: "string \<Rightarrow> jsint" where
  "parseInt input =
     (let (neg, s) = stripSign (dropWhile isWhiteSpace input);
          hex = (take 2 s = ''0x'' \<or> take 2 s = ''0X'');
          z = (if hex then takeWhile isHexDigit (drop 2 s) else takeWhile isDigit s);
          n = int (digitsValue (if hex then 16 else 10) z)
      in if z = [] then None else Some (if neg then - n else n))"

text \<open>\<open>parseInt(x || 0)\<close> for a string \<open>x\<close>: the empty string is falsy and gives \<open>0\<close>.\<close>

definition parseIntOrZero :: "string \<Rightarrow> jsint" where
  "parseIntOrZero x = (if x = [] then Some 0 else parseInt x)"

text \<open>
  \<open>parseFloat(string)\<close>: the longest prefix, after white space, that is a decimal
  literal (sign, \<open>Infinity\<close> or digits with an optional fraction and exponent).
\<close>

definition exponentPart :: "string \<Rightarrow> int" where
  "exponentPart s =
     (case s of
        [] \<Rightarrow> 0
      | c # r \<Rightarrow>
          (if c = CHR ''e'' \<or> c = CHR ''E'' then
             (let (neg, ds) = stripSign r; z = takeWhile isDigit ds
              in if z = [] then 0
                 else if neg then - int (digitsValue 10 z) else int (digitsValue 10 z))
           else 0))"

definition scaleByPowerOfTen :: "real \<Rightarrow> int \<Rightarrow> real" where
  "scaleByPowerOfTen m e = (if e \<ge> 0 then m * 10 ^ nat e else m / 10 ^ nat (- e))"

definition parseFloat :: "string \<Rightarrow> jsnum" where
  "parseFloat input =
     (let (neg, s) = stripSign (dropWhile isWhiteSpace input)
      in if take 8 s = ''Infinity'' then (if neg then NInf else PInf)
         else
           (let ip = takeWhile isDigit s;
                r1 = dropWhile isDigit s;
                hasDot = (r1 \<noteq> [] \<and> hd r1 = CHR ''.'');
                fp = (if hasDot then takeWhile isDigit (tl r1) else []);
                r2 = (if hasDot then dropWhile isDigit (tl r1) else r1);
                mant = real (digitsValue 10 ip) + real (digitsValue 10 fp) / 10 ^ length fp;
                v = scaleByPowerOfTen mant (exponentPart r2)
            in if ip = [] \<and> fp = [] then NaN else Num (if neg then - v else v)))"

text \<open>\<open>parseFloat(x || 0)\<close> for a string \<open>x\<close>.\<close>

definition parseFloatOrZero :: "string \<Rightarrow> jsnum" where
  "parseFloatOrZero x = (if x = [] then Num 0 else parseFloat x)"

text \<open>
  \<open>Number.prototype.toFixed(f)\<close> for magnitudes below \<open>10^21\<close>: the integer nearest to
  \<open>x * 10^f\<close> (the larger one in a tie), printed with \<open>f\<close> digits after the point.
\<close>

definition fixedDigits :: "nat \<Rightarrow> real \<Rightarrow> string" where
  "fixedDigits f x =
     (let m = showNat (nat \<lfloor>x * 10 ^ f + 1 / 2\<rfloor>);
          m' = (if f \<noteq> 0 \<and> length m \<le> f then replicate (f + 1 - length m) (CHR ''0'') @ m else m);
          k = length m'
      in if f \<noteq> 0 then take (k - f) m' @ ''.'' @ drop (k - f) m' else m')"

fun toFixed :: "nat \<Rightarrow> jsnum \<Rightarrow> string" where
  "toFixed f (Num x) = (if x < 0 then ''-'' @ fixedDigits f (- x) else fixedDigits f x)"
| "toFixed f NaN = ''NaN''"
| "toFixed f PInf = ''Infinity''"
| "toFixed f NInf = ''-Infinity''"

subsection \<open>Dates\<close>

text \<open>
  The host's \<open>Date\<close> parser and the \<open>Intl\<close> formatter are parameters of the model.
  \<open>parseDate rt s\<close> is the time value of \<open>new Date(s)\<close> in epoch milliseconds, \<open>None\<close> for
  the invalid date. \<open>formatDate rt withSeconds t\<close> is
  \<open>new Date(t).toLocaleString('en-US', {month: 'short', day: 'numeric', hour: '2-digit',
  minute: '2-digit', hour12: true, timeZone: 'America/New_York'})\<close>, with
  \<open>second: '2-digit'\<close> added when \<open>withSeconds\<close> holds; the argument \<open>None\<close> stands for
  \<open>new Date(undefined)\<close>.
\<close>

record date_runtime =
  parseDate :: "string \<Rightarrow> int option"
  formatDate :: "bool \<Rightarrow> int option \<Rightarrow> string"

text \<open>
  A runtime for evaluating examples: dates are written and printed as epoch milliseconds
  in decimal.
\<close>

definition epochRuntime :: date_runtime where
  "epochRuntime =
     \<lparr>parseDate = parseInt,
      formatDate = (\<lambda>withSeconds t. case t of None \<Rightarrow> ''Invalid Date'' | Some ms \<Rightarrow> showInt ms)\<rparr>"

section \<open>The report generator: \<open>confluenceReportGenerator.js\<close>\<close>

subsection \<open>The payload\<close>

text \<open>
  The payload is parsed JSON. The records below fix the shape that the analysis reads;
  restart and error counts are integers. A field that the code dereferences without a
  test is present. A field that the code only tests for truthiness, or reads through
  \<open>?.\<close>, is an \<open>option\<close>: a missing field and \<open>null\<close> behave alike there and both are
  \<open>None\<close>. Where the code tells them apart (\<open>sum + pod.restarts\<close>, \<open>new Date(from_date)\<close>,
  the text of a template literal) the field is a \<open>jsfield\<close>. The one field tested with
  \<open>!== undefined\<close> is \<open>summary.avgCpuPct\<close>: its \<open>None\<close> is the missing field only; on a
  \<open>null\<close> there the code throws a \<open>TypeError\<close> at \<open>.toFixed\<close>, as it does on every
  payload that is not of this shape, and such payloads are not values of these types.
\<close>

datatype 'a jsfield = Absent | Null | Present 'a

text \<open>How a template literal prints an integer field.\<close>

definition showField :: "int jsfield \<Rightarrow> string" where
  "showField c =
     (case c of Absent \<Rightarrow> ''undefined'' | Null \<Rightarrow> ''null'' | Present n \<Rightarrow> showInt n)"

text \<open>
  The comparisons \<open>x > bound\<close> and \<open>x >= bound\<close> of an integer field: \<open>null\<close> converts
  to \<open>0\<close>, \<open>undefined\<close> to \<open>NaN\<close>.
\<close>

definition fieldGreater :: "int jsfield \<Rightarrow> int \<Rightarrow> bool" where
  "fieldGreater c bound =
     (case c of Absent \<Rightarrow> False | Null \<Rightarrow> 0 > bound | Present n \<Rightarrow> n > bound)"

definition fieldAtLeast :: "int jsfield \<Rightarrow> int \<Rightarrow> bool" where
  "fieldAtLeast c bound =
     (case c of Absent \<Rightarrow> False | Null \<Rightarrow> 0 \<ge> bound | Present n \<Rightarrow> n \<ge> bound)"

text \<open>The argument of \<open>new Date(x)\<close> for a field: \<open>new Date(null)\<close> is the epoch.\<close>

definition dateArgument :: "int jsfield \<Rightarrow> int option" where
  "dateArgument x = (case x of Absent \<Rightarrow> None | Null \<Rightarrow> Some 0 | Present n \<Rightarrow> Some n)"

record metric =
  resource_name :: string
  requests :: string
  p95_latency :: string
  errors :: string
  error_rate :: string

record endpoint_metric =
  ep_resource_name :: string
  ep_requests :: "int option"
  ep_p95_latency :: "real option"
  ep_error_rate :: "real option"
  ep_errors :: int

record time_range =
  tr_from :: string
  tr_to :: string

record top_message =
  message :: string
  msg_count :: "int jsfield"

record log_summary =
  totalLogErrors :: "int option"
  topMessages :: "top_message list option"

record error_metrics =
  logSummary :: "log_summary option"

text \<open>
  A pod row. The four percentages are the documented fields \<open>avgCpuPct\<close>, \<open>maxCpuPct\<close>,
  \<open>avgMemoryPct\<close> and \<open>maxMemoryPct\<close> of the row; the functions modelled here read none
  of them.
\<close>

record pod =
  podName :: string
  restarts :: "int jsfield"
  pod_avgCpuPct :: real
  pod_maxCpuPct :: real
  pod_avgMemoryPct :: real
  pod_maxMemoryPct :: real

record memory_metric =
  mem_podName :: string
  maxMemory :: real

record container_metrics =
  memory :: "memory_metric list option"

record pod_summary =
  avgCpuPct :: "real option"
  maxCpuPct :: real
  avgMemoryPct :: real
  maxMemoryPct :: real

record restarts_response = dd_response +
  from_date :: "int jsfield"
  to_date :: "int jsfield"

record time_series =
  ts_restarts :: "restarts_response option"

record pod_metrics_data =
  pm_podMetrics :: "pod list option"
  summary :: "pod_summary option"
  timeSeries :: "time_series option"
  containerMetrics :: "container_metrics option"

record perf_data =
  metrics :: "metric list"
  endpointMetrics :: "endpoint_metric list option"
  timeRange :: "time_range option"
  errorMetrics :: "error_metrics option"
  podMetrics :: "pod_metrics_data option"

text \<open>\<open>data.errorMetrics?.logSummary?.totalLogErrors\<close>, and its test \<open>> 0\<close>.\<close>

definition logErrorCount :: "perf_data \<Rightarrow> int option" where
  "logErrorCount data =
     (case errorMetrics data of
        None \<Rightarrow> None
      | Some em \<Rightarrow> (case logSummary em of None \<Rightarrow> None | Some ls \<Rightarrow> totalLogErrors ls))"

definition hasLogErrors :: "perf_data \<Rightarrow> bool" where
  "hasLogErrors data = positiveJsInt (logErrorCount data)"

subsection \<open>\<open>analyzeRestartTiming\<close> (lines 724-790)\<close>

record restart_entry =
  exactTime :: string
  duringWindow :: bool

text \<open>
  The loop over \<open>points[1..]\<close> (lines 746-754). Its state is the three variables
  \<open>restartIncrease\<close>, \<open>latestRestartTime\<close> and \<open>maxValue\<close>.
\<close>

fun scanPoints ::
  "(int \<times> jsvalue) list \<Rightarrow> bool \<times> int option \<times> jsvalue \<Rightarrow> bool \<times> int option \<times> jsvalue" where
  "scanPoints [] st = st"
| "scanPoints ((timestamp, val) # rest) (restartIncrease, latestRestartTime, maxValue) =
     (if toNumber val > toNumber maxValue
      then scanPoints rest (True, Some timestamp, val)
      else scanPoints rest (restartIncrease, latestRestartTime, maxValue))"

text \<open>The test \<open>if (latestRestartTime)\<close>: \<open>null\<close> and the number \<open>0\<close> are falsy.\<close>

definition truthyTime :: "int option \<Rightarrow> bool" where
  "truthyTime t = (case t of None \<Rightarrow> False | Some ts \<Rightarrow> ts \<noteq> 0)"

text \<open>Lines 738-784 for one series with a non-empty point list.\<close>

definition classifySeries ::
  "date_runtime \<Rightarrow> int option \<Rightarrow> (int \<times> jsvalue) list \<Rightarrow> restart_entry option" where
  "classifySeries rt monitoringStart points =
     (case points of
        [] \<Rightarrow> None
      | (t0, startValue) # rest \<Rightarrow>
          (case scanPoints rest (False, None, startValue) of
             (restartIncrease, latestRestartTime, maxValue) \<Rightarrow>
               (if truthyTime latestRestartTime then
                  Some \<lparr>exactTime = formatDate rt True latestRestartTime @ '' EST'',
                        duringWindow = True\<rparr>
                else if toNumber startValue > 0 then
                  Some \<lparr>exactTime = ''Before '' @ formatDate rt False monitoringStart @ '' EST'',
                        duringWindow = False\<rparr>
                else None)))"

text \<open>
  The object \<open>restartTiming\<close> is a plain \<open>{}\<close> used as a dictionary, so a read
  \<open>restartTiming[name]\<close> that finds no own property continues in the prototype. The model
  keeps the own properties and the prototype: \<open>None\<close> is \<open>Object.prototype\<close>, and
  \<open>Some e\<close> is an entry that an assignment to the key \<open>__proto__\<close> has installed as
  prototype (the assignment runs the setter of \<open>Object.prototype\<close> and creates no own
  property).
\<close>

record timing_object =
  own :: "string \<rightharpoonup> restart_entry"
  proto :: "restart_entry option"

definition emptyTiming :: timing_object where
  "emptyTiming = \<lparr>own = Map.empty, proto = None\<rparr>"

text \<open>The data properties of \<open>Object.prototype\<close>: all of them are functions.\<close>

definition objectPrototypeKeys :: "string list" where
  "objectPrototypeKeys =
     [''constructor'', ''__defineGetter__'', ''__defineSetter__'', ''hasOwnProperty'',
      ''__lookupGetter__'', ''__lookupSetter__'', ''isPrototypeOf'', ''propertyIsEnumerable'',
      ''toString'', ''valueOf'', ''toLocaleString'']"

text \<open>
  What a read returns: \<open>undefined\<close>, an entry, an inherited function or
  \<open>Object.prototype\<close> itself (truthy, and without the properties \<open>exactTime\<close> and
  \<open>duringWindow\<close>), or the string or the boolean of the entry that serves as prototype.
\<close>

datatype timing_value = NoValue | Entry restart_entry | Inherited | Text string | Flag bool

definition getTiming :: "timing_object \<Rightarrow> string \<Rightarrow> timing_value" where
  "getTiming obj k =
     (case own obj k of
        Some e \<Rightarrow> Entry e
      | None \<Rightarrow>
          (case proto obj of
             Some e \<Rightarrow>
               (if k = ''__proto__'' then Entry e
                else if k = ''exactTime'' then Text (exactTime e)
                else if k = ''duringWindow'' then Flag (duringWindow e)
                else if k \<in> set objectPrototypeKeys then Inherited
                else NoValue)
           | None \<Rightarrow>
               (if k = ''__proto__'' \<or> k \<in> set objectPrototypeKeys then Inherited
                else NoValue)))"

definition setTiming :: "timing_object \<Rightarrow> string \<Rightarrow> restart_entry \<Rightarrow> timing_object" where
  "setTiming obj k e =
     (if k = ''__proto__'' then obj\<lparr>proto := Some e\<rparr> else obj\<lparr>own := (own obj)(k \<mapsto> e)\<rparr>)"

text \<open>The body of \<open>for (const series of restartSeries)\<close>.\<close>

definition restartSeriesStep ::
  "date_runtime \<Rightarrow> int option \<Rightarrow> timing_object \<Rightarrow> dd_series \<Rightarrow> timing_object" where
  "restartSeriesStep rt monitoringStart restartTiming s =
     (case matchPodName (expression s) of
        None \<Rightarrow> restartTiming
      | Some name \<Rightarrow>
          (case pointlist s of
             None \<Rightarrow> restartTiming
           | Some points \<Rightarrow>
               (if length points > 0 then
                  (case classifySeries rt monitoringStart points of
                     None \<Rightarrow> restartTiming
                   | Some entry \<Rightarrow> setTiming restartTiming name entry)
                else restartTiming)))"

definition analyzeRestartTiming :: "date_runtime \<Rightarrow> pod_metrics_data \<Rightarrow> timing_object" where
  "analyzeRestartTiming rt podMetricsData =
     (case timeSeries podMetricsData of
        None \<Rightarrow> emptyTiming
      | Some ts \<Rightarrow>
          (case ts_restarts ts of
             None \<Rightarrow> emptyTiming
           | Some r \<Rightarrow>
               (case series r of
                  None \<Rightarrow> emptyTiming
                | Some restartSeries \<Rightarrow>
                    foldl (restartSeriesStep rt (dateArgument (from_date r))) emptyTiming
                      restartSeries)))"

subsection \<open>\<open>getMainRestartCause\<close> (lines 792-814)\<close>

text \<open>
  \<open>podsWithRestarts.reduce((sum, pod) => sum + pod.restarts, 0)\<close>: a missing count makes
  the sum \<open>NaN\<close>, a \<open>null\<close> count adds \<open>0\<close>.
\<close>

definition addRestarts :: "jsint \<Rightarrow> pod \<Rightarrow> jsint" where
  "addRestarts acc p =
     (case restarts p of
        Absent \<Rightarrow> None
      | Null \<Rightarrow> addJsInt acc (Some 0)
      | Present r \<Rightarrow> addJsInt acc (Some r))"

definition sumRestarts :: "pod list \<Rightarrow> jsint" where
  "sumRestarts pods = foldl addRestarts (Some 0) pods"

text \<open>
  The callback of \<open>podsWithRestarts.some\<close> (lines 795-799). The memory peak of a pod is
  the \<open>maxMemory\<close> of the first entry with its name in
  \<open>allData.podMetrics.containerMetrics.memory\<close>; the \<open>maxMemoryPct\<close> of the pod rows is
  not read.
\<close>

definition podHasHighMemory :: "perf_data \<Rightarrow> pod \<Rightarrow> bool" where
  "podHasHighMemory allData p =
     (case podMetrics allData of
        None \<Rightarrow> False
      | Some pm \<Rightarrow>
          (case containerMetrics pm of
             None \<Rightarrow> False
           | Some cm \<Rightarrow>
               (case memory cm of
                  None \<Rightarrow> False
                | Some memMetrics \<Rightarrow>
                    (case find (\<lambda>m. mem_podName m = podName p) memMetrics of
                       None \<Rightarrow> False
                     | Some podMemData \<Rightarrow> maxMemory podMemData > 90))))"

definition oomMessage :: string where
  "oomMessage = ''High memory usage detected - likely OOM (Out of Memory) kills''"

definition correlatedMessage :: "int \<Rightarrow> string" where
  "correlatedMessage n =
     ''Correlated with '' @ showInt n @ '' application errors - likely application-level failures''"

definition frequentMessage :: string where
  "frequentMessage =
     ''Frequent restarts suggest health check failures or application instability''"

definition multiplePodsMessage :: string where
  "multiplePodsMessage = ''Multiple pods affected - indicates service-level instability''"

definition monitorMessage :: string where
  "monitorMessage =
     ''Monitor for patterns - may be related to deployment updates or transient issues''"

definition getMainRestartCause :: "pod list \<Rightarrow> perf_data \<Rightarrow> string" where
  "getMainRestartCause podsWithRestarts allData =
     (let totalRestarts = sumRestarts podsWithRestarts;
          hasHighErrors = hasLogErrors allData;
          hasHighMemory = list_ex (podHasHighMemory allData) podsWithRestarts
      in if hasHighMemory then oomMessage
         else if hasHighErrors \<and> (case totalRestarts of None \<Rightarrow> False | Some t \<Rightarrow> t > 1) then
           correlatedMessage (the (logErrorCount allData))
         else if (case totalRestarts of None \<Rightarrow> False | Some t \<Rightarrow> t \<ge> 3) then frequentMessage
         else if length podsWithRestarts > 1 then multiplePodsMessage
         else monitorMessage)"

subsection \<open>\<open>analyzePerformanceData\<close> (lines 954-1167)\<close>

datatype status = Good | Warning | Critical

text \<open>The ordering \<open>good < warning < critical\<close>.\<close>

fun severity :: "status \<Rightarrow> nat" where
  "severity Good = 0"
| "severity Warning = 1"
| "severity Critical = 2"

text \<open>The three local variables that the function returns.\<close>

record verdict =
  findings :: "string list"
  recommendations :: "string list"
  overallStatus :: status

definition initialVerdict :: verdict where
  "initialVerdict = \<lparr>findings = [], recommendations = [], overallStatus = Good\<rparr>"

text \<open>The assignment \<open>overallStatus = overallStatus === 'good' ? 'warning' : overallStatus\<close>.\<close>

definition atLeastWarning :: "status \<Rightarrow> status" where
  "atLeastWarning s = (if s = Good then Warning else s)"

text \<open>
  The filter callback shared by lines 965-969 and 1114-1119 (and by the second body of
  \<open>generateSummaryObservations\<close>): \<open>pod.restarts && pod.restarts > 0\<close>, then
  \<open>podTiming && podTiming.duringWindow !== false\<close>, where a truthy \<open>podTiming\<close> that is no
  entry has no property \<open>duringWindow\<close>. After it, the sum \<open>sum + (pod.restarts || 0)\<close>.
\<close>

definition hasRestartCount :: "pod \<Rightarrow> bool" where
  "hasRestartCount p =
     (case restarts p of Absent \<Rightarrow> False | Null \<Rightarrow> False | Present r \<Rightarrow> r \<noteq> 0 \<and> r > 0)"

definition restartedDuringWindow :: "timing_object \<Rightarrow> pod \<Rightarrow> bool" where
  "restartedDuringWindow restartTiming p =
     (hasRestartCount p
      \<and> (case getTiming restartTiming (podName p) of
            NoValue \<Rightarrow> False
          | Entry podTiming \<Rightarrow> duringWindow podTiming \<noteq> False
          | Inherited \<Rightarrow> True
          | Text str \<Rightarrow> str \<noteq> []
          | Flag b \<Rightarrow> b))"

definition restartsOrZero :: "pod \<Rightarrow> int" where
  "restartsOrZero p = (case restarts p of Absent \<Rightarrow> 0 | Null \<Rightarrow> 0 | Present r \<Rightarrow> r)"

definition totalRestartsOf :: "pod list \<Rightarrow> int" where
  "totalRestartsOf pods = foldl (\<lambda>sum p. sum + restartsOrZero p) 0 pods"

text \<open>
  Lines 961-976, the first restart check. The local \<open>hasRestarts\<close> is written and never
  read.
\<close>

definition restartCheck :: "date_runtime \<Rightarrow> perf_data \<Rightarrow> verdict \<Rightarrow> verdict" where
  "restartCheck rt data v =
     (case podMetrics data of
        None \<Rightarrow> v
      | Some pm \<Rightarrow>
          (case pm_podMetrics pm of
             None \<Rightarrow> v
           | Some pods \<Rightarrow>
               (let restartTiming = analyzeRestartTiming rt pm;
                    podsWithRestarts = filter (restartedDuringWindow restartTiming) pods;
                    totalRestarts = totalRestartsOf podsWithRestarts
                in if totalRestarts > 0 then
                     v\<lparr>findings := findings v @
                          [''<strong>Pod Restarts:</strong> '' @ showInt totalRestarts
                             @ '' total restart(s) across '' @ showNat (length podsWithRestarts)
                             @ '' pod(s)''],
                       overallStatus := (if totalRestarts \<ge> 5 then Critical else Warning)\<rparr>
                   else v)))"

text \<open>
  Lines 978-996, the latency analysis. \<open>worstEndpoint\<close> and \<open>avgP95\<close> are computed and
  never read.
\<close>

definition latencyAnalysis :: "perf_data \<Rightarrow> verdict \<Rightarrow> verdict" where
  "latencyAnalysis data v =
     (let highLatencyEndpoints =
            filter (\<lambda>m. js_gt (parseFloat (p95_latency m)) (Num 1000)) (metrics data)
      in if length highLatencyEndpoints > 0 then
           (let p95Values =
                  joinWith '', ''
                    (map (\<lambda>ep. toFixed 2 (js_div (parseFloat (p95_latency ep)) 1000) @ ''s'')
                       highLatencyEndpoints);
                endpointNames =
                  joinWith '', ''
                    (map (\<lambda>ep. ''<strong>'' @ resource_name ep @ ''</strong>'')
                       highLatencyEndpoints)
            in v\<lparr>findings := findings v @
                    [''<strong>High P95 Latency Detected:</strong> ''
                       @ showNat (length highLatencyEndpoints)
                       @ '' endpoint(s) with P95 > 1s (p95: '' @ p95Values @ ''). Endpoints: ''
                       @ endpointNames],
                 recommendations := recommendations v @
                    [''Investigate slow endpoints for database query optimization, external API calls, or inefficient algorithms''],
                 overallStatus := Warning\<rparr>)
         else v)"

text \<open>Lines 998-1017, the endpoint error analysis.\<close>

definition worseErrorRate :: "metric \<Rightarrow> metric \<Rightarrow> metric" where
  "worseErrorRate worst current =
     (if js_gt (parseFloatOrZero (error_rate current)) (parseFloatOrZero (error_rate worst))
      then current else worst)"

definition endpointErrorAnalysis :: "perf_data \<Rightarrow> verdict \<Rightarrow> verdict" where
  "endpointErrorAnalysis data v =
     (let errorEndpoints = filter (\<lambda>m. positiveJsInt (parseIntOrZero (errors m))) (metrics data)
      in if length errorEndpoints > 0 then
           (let totalEndpointErrors =
                  foldl (\<lambda>sum m. addJsInt sum (parseIntOrZero (errors m))) (Some 0) errorEndpoints;
                v1 = v\<lparr>findings := findings v @
                        [''<strong>Errors Found:</strong> '' @ showJsInt totalEndpointErrors
                           @ '' total errors ('' @ showJsInt totalEndpointErrors
                           @ '' endpoint errors, 0 trace errors)'']\<rparr>;
                errorRateEndpoints =
                  filter (\<lambda>m. js_gt (parseFloatOrZero (error_rate m)) (Num 0)) errorEndpoints;
                v2 = (if length errorRateEndpoints > 0 then
                        (let worstErrorEndpoint =
                               foldl worseErrorRate (hd errorRateEndpoints) (tl errorRateEndpoints)
                         in v1\<lparr>findings := findings v1 @
                                 [''<strong>Most Common Error:</strong> ''
                                    @ toFixed 2 (parseFloat (error_rate worstErrorEndpoint))
                                    @ ''% error rate on '' @ resource_name worstErrorEndpoint
                                    @ '' endpoint'']\<rparr>)
                      else v1)
            in v2\<lparr>overallStatus := atLeastWarning (overallStatus v2)\<rparr>)
         else v)"

text \<open>Lines 1019-1029, the application log errors.\<close>

definition logErrorAnalysis :: "perf_data \<Rightarrow> verdict \<Rightarrow> verdict" where
  "logErrorAnalysis data v =
     (case errorMetrics data of
        None \<Rightarrow> v
      | Some em \<Rightarrow>
          (case logSummary em of
             None \<Rightarrow> v
           | Some ls \<Rightarrow>
               (if positiveJsInt (totalLogErrors ls) then
                  (let v1 = v\<lparr>findings := findings v @
                               [''<strong>Application Errors:</strong> ''
                                  @ showJsInt (totalLogErrors ls)
                                  @ '' log errors detected during monitoring window'']\<rparr>;
                       topLogMessage =
                         (case topMessages ls of
                            None \<Rightarrow> None
                          | Some ms \<Rightarrow> (case ms of [] \<Rightarrow> None | m # _ \<Rightarrow> Some m));
                       v2 = (case topLogMessage of
                               None \<Rightarrow> v1
                             | Some m \<Rightarrow>
                                 (if message m \<noteq> ''No message...'' then
                                    v1\<lparr>findings := findings v1 @
                                         [''<strong>Most Common Log Error:</strong> '' @ dquote
                                            @ message m @ dquote @ '' occurred ''
                                            @ showField (msg_count m) @ '' times'']\<rparr>
                                  else v1))
                   in v2\<lparr>overallStatus := atLeastWarning (overallStatus v2)\<rparr>)
                else v)))"

text \<open>
  The window length \<open>(new Date(to) - new Date(from)) / (1000 * 60)\<close>, or \<open>30\<close> without a
  time range.
\<close>

definition timeRangeMinutesOf :: "date_runtime \<Rightarrow> time_range option \<Rightarrow> jsnum" where
  "timeRangeMinutesOf rt tr =
     (case tr of
        None \<Rightarrow> Num 30
      | Some r \<Rightarrow>
          (case parseDate rt (tr_to r) of
             None \<Rightarrow> NaN
           | Some t \<Rightarrow>
               (case parseDate rt (tr_from r) of
                  None \<Rightarrow> NaN
                | Some f \<Rightarrow> Num (real_of_int (t - f) / (1000 * 60)))))"

text \<open>The operator \<open>/\<close> on the values that reach it here: a finite numerator.\<close>

fun js_quot :: "real \<Rightarrow> jsnum \<Rightarrow> jsnum" where
  "js_quot a (Num b) = js_div (Num a) b"
| "js_quot a NaN = NaN"
| "js_quot a PInf = Num 0"
| "js_quot a NInf = Num 0"

text \<open>Lines 1031-1040, the throughput analysis.\<close>

definition throughputAnalysis :: "date_runtime \<Rightarrow> perf_data \<Rightarrow> verdict \<Rightarrow> verdict" where
  "throughputAnalysis rt data v =
     (if length (metrics data) > 0 then
        (let totalRequests =
               foldl (\<lambda>sum m. addJsInt sum (parseIntOrZero (requests m))) (Some 0) (metrics data)
         in if positiveJsInt totalRequests then
              (let timeRangeMinutes = timeRangeMinutesOf rt (timeRange data);
                   avgRate = toFixed 2 (js_quot (real_of_int (the totalRequests)) timeRangeMinutes)
               in v\<lparr>findings := findings v @
                       [''<strong>Throughput:</strong> '' @ showJsInt totalRequests
                          @ '' total requests over '' @ toFixed 0 timeRangeMinutes
                          @ '' minutes (avg: '' @ avgRate @ '' req/min)'']\<rparr>)
            else v)
      else v)"

text \<open>Lines 1090-1109, the resource utilization.\<close>

definition resourceUtilization :: "perf_data \<Rightarrow> verdict \<Rightarrow> verdict" where
  "resourceUtilization data v =
     (case podMetrics data of
        None \<Rightarrow> v
      | Some pm \<Rightarrow>
          (case summary pm of
             None \<Rightarrow> v
           | Some s \<Rightarrow>
               (case avgCpuPct s of
                  None \<Rightarrow> v
                | Some avgCpu \<Rightarrow>
                    (let maxCpu = maxCpuPct s; avgMem = avgMemoryPct s; maxMem = maxMemoryPct s;
                         v1 = v\<lparr>findings := findings v @
                                 [''<strong>Resource Utilization:</strong> CPU: ''
                                    @ toFixed 2 (Num avgCpu) @ ''% avg, '' @ toFixed 2 (Num maxCpu)
                                    @ ''% peak | Memory: '' @ toFixed 2 (Num avgMem) @ ''% avg, ''
                                    @ toFixed 2 (Num maxMem) @ ''% peak'']\<rparr>;
                         v2 = (if maxCpu > 80 then
                                 v1\<lparr>recommendations := recommendations v1 @
                                      [''CPU usage peaked above 80% - consider increasing CPU limits or horizontal scaling''],
                                    overallStatus := atLeastWarning (overallStatus v1)\<rparr>
                               else v1)
                     in if maxMem > 80 then
                          v2\<lparr>recommendations := recommendations v2 @
                               [''Memory usage peaked above 80% - monitor for potential memory pressure and consider increasing limits''],
                             overallStatus := atLeastWarning (overallStatus v2)\<rparr>
                        else v2))))"

text \<open>Lines 1127-1134, the detail line of one restarted pod.\<close>

definition restartDetail :: "timing_object \<Rightarrow> pod \<Rightarrow> string" where
  "restartDetail restartTiming p =
     (let head = ''&nbsp;&nbsp;'' @ bullet @ '' '' @ podName p @ '' - '' @ showField (restarts p)
                   @ '' restart'' @ (if fieldGreater (restarts p) 1 then ''s'' else '''')
      in case getTiming restartTiming (podName p) of
           Entry timing \<Rightarrow>
             (if exactTime timing \<noteq> [] \<and> duringWindow timing
              then head @ '' (At: '' @ exactTime timing @ '')''
              else head @ '' during monitoring period'')
         | _ \<Rightarrow> head @ '' during monitoring period'')"

text \<open>Lines 1111-1157, the pod restart analysis.\<close>

definition podRestartAnalysis :: "date_runtime \<Rightarrow> perf_data \<Rightarrow> verdict \<Rightarrow> verdict" where
  "podRestartAnalysis rt data v =
     (case podMetrics data of
        None \<Rightarrow> v
      | Some pm \<Rightarrow>
          (case pm_podMetrics pm of
             None \<Rightarrow> v
           | Some pods \<Rightarrow>
               (let restartTiming = analyzeRestartTiming rt pm;
                    podsWithRestarts = filter (restartedDuringWindow restartTiming) pods;
                    totalRestarts = totalRestartsOf podsWithRestarts
                in if totalRestarts > 0 then
                     (let mainCause = getMainRestartCause podsWithRestarts data
                      in v\<lparr>findings := findings v @
                              [''<strong>Pod Restarts Detected:</strong> '' @ showInt totalRestarts
                                 @ '' restart(s) during monitoring window across ''
                                 @ showNat (length podsWithRestarts) @ '' pod(s)'']
                              @ map (restartDetail restartTiming) podsWithRestarts
                              @ (if mainCause \<noteq> [] then [''&nbsp;&nbsp;'' @ bullet @ '' '' @ mainCause]
                                 else []),
                           recommendations := recommendations v
                              @ (if hasLogErrors data then
                                   [''<strong>Application errors causing restarts:</strong> Review application logs and implement proper error handling'']
                                 else [])
                              @ (if list_ex (\<lambda>p. fieldAtLeast (restarts p) 3) podsWithRestarts then
                                   [''<strong>Frequent restarts detected:</strong> Check health check configurations and resource limits'']
                                 else []),
                           overallStatus :=
                              (if totalRestarts \<ge> 5 then Critical
                               else if totalRestarts \<ge> 2 then atLeastWarning (overallStatus v)
                               else overallStatus v)\<rparr>)
                   else v)))"

text \<open>Lines 1159-1164, the general recommendations.\<close>

definition generalRecommendations :: "verdict \<Rightarrow> verdict" where
  "generalRecommendations v =
     (if overallStatus v = Good then
        v\<lparr>findings := findings v @
             [''<strong>'' @ checkMark @ '' All metrics within acceptable thresholds</strong>''],
          recommendations := recommendations v @
             [''Continue monitoring performance trends over time'',
              ''Establish this test as a baseline for future regression testing'']\<rparr>
      else v)"

text \<open>
  The processing steps in the order of the source, and the local state after each of them.
\<close>

definition analysisSteps :: "date_runtime \<Rightarrow> perf_data \<Rightarrow> (verdict \<Rightarrow> verdict) list" where
  "analysisSteps rt data =
     [restartCheck rt data, latencyAnalysis data, endpointErrorAnalysis data,
      logErrorAnalysis data, throughputAnalysis rt data, resourceUtilization data,
      podRestartAnalysis rt data, generalRecommendations]"

fun runSteps :: "(verdict \<Rightarrow> verdict) list \<Rightarrow> verdict \<Rightarrow> verdict list" where
  "runSteps [] v = [v]"
| "runSteps (f # fs) v = v # runSteps fs (f v)"

definition analysisTrace :: "date_runtime \<Rightarrow> perf_data \<Rightarrow> verdict list" where
  "analysisTrace rt data = runSteps (analysisSteps rt data) initialVerdict"

definition analyzePerformanceData :: "date_runtime \<Rightarrow> perf_data \<Rightarrow> verdict" where
  "analyzePerformanceData rt data = last (analysisTrace rt data)"

subsection \<open>The two bodies of \<open>generateSummaryObservations\<close> (lines 590-655 and 657-722)\<close>

text \<open>The filter callback of the first body (lines 598-602).\<close>

definition notBeforeWindow :: "timing_object \<Rightarrow> pod \<Rightarrow> bool" where
  "notBeforeWindow restartTiming p =
     (hasRestartCount p
      \<and> (case getTiming restartTiming (podName p) of
            Entry podTiming \<Rightarrow>
              exactTime podTiming = [] \<or> \<not> includesStr (exactTime podTiming) ''Before''
          | _ \<Rightarrow> True))"

text \<open>
  Lines 593-605 and 660-672: the pods counted for the monitoring window, with the filter
  callback as a parameter.
\<close>

definition windowPods ::
  "(timing_object \<Rightarrow> pod \<Rightarrow> bool) \<Rightarrow> date_runtime \<Rightarrow> perf_data \<Rightarrow> pod list" where
  "windowPods keep rt data =
     (case podMetrics data of
        None \<Rightarrow> []
      | Some pm \<Rightarrow>
          (case pm_podMetrics pm of
             None \<Rightarrow> []
           | Some pods \<Rightarrow> filter (keep (analyzeRestartTiming rt pm)) pods))"

text \<open>
  The statements after the restart count, which are the same text in both bodies
  (lines 607-654 and 674-721).
\<close>

definition worseLatency :: "endpoint_metric \<Rightarrow> endpoint_metric \<Rightarrow> endpoint_metric" where
  "worseLatency worst current =
     (if toNumber (ep_p95_latency current) > toNumber (ep_p95_latency worst) then current
      else worst)"

definition worseRate :: "endpoint_metric \<Rightarrow> endpoint_metric \<Rightarrow> endpoint_metric" where
  "worseRate worst current =
     (if toNumber (ep_error_rate current) > toNumber (ep_error_rate worst) then current
      else worst)"

definition truthyGreater :: "real option \<Rightarrow> real \<Rightarrow> bool" where
  "truthyGreater x bound = (case x of None \<Rightarrow> False | Some r \<Rightarrow> r \<noteq> 0 \<and> r > bound)"

definition summaryObservations ::
  "date_runtime \<Rightarrow> perf_data \<Rightarrow> pod list \<Rightarrow> string list" where
  "summaryObservations rt data validRestarts =
     (let windowRestarts = totalRestartsOf validRestarts;
          restartedPods = length validRestarts;
          eps = (case endpointMetrics data of None \<Rightarrow> [] | Some es \<Rightarrow> es);
          highLatencyEndpoints = filter (\<lambda>e. truthyGreater (ep_p95_latency e) 1000) eps;
          errorEndpoints = filter (\<lambda>e. truthyGreater (ep_error_rate e) 0) eps;
          totalRequests =
            foldl (\<lambda>sum e. sum + (case ep_requests e of None \<Rightarrow> 0 | Some r \<Rightarrow> r)) 0 eps;
          timeRangeMinutes = timeRangeMinutesOf rt (timeRange data)
      in (if windowRestarts > 0 then
            [''Pod Restarts: '' @ showInt windowRestarts @ '' restart(s) across ''
               @ showNat restartedPods @ '' pod(s) during monitoring window'']
          else [])
         @ (if length highLatencyEndpoints > 0 then
              (let worstEndpoint =
                     foldl worseLatency (hd highLatencyEndpoints) (tl highLatencyEndpoints)
               in [''Performance Issues: High P95 latency (''
                     @ toFixed 1 (Num (toNumber (ep_p95_latency worstEndpoint) / 1000))
                     @ ''+ seconds) on '' @ ep_resource_name worstEndpoint @ '' endpoint''])
            else [])
         @ (if length errorEndpoints > 0 then
              (let worstErrorEndpoint = foldl worseRate (hd errorEndpoints) (tl errorEndpoints)
               in [''Error Rate: '' @ toFixed 2 (Num (toNumber (ep_error_rate worstErrorEndpoint)))
                     @ ''% error rate on '' @ ep_resource_name worstErrorEndpoint
                     @ '' endpoint with '' @ showInt (ep_errors worstErrorEndpoint) @ '' errors''])
            else [])
         @ (if hasLogErrors data then
              [''Application Errors: '' @ showJsInt (logErrorCount data)
                 @ '' log errors detected during monitoring window'']
            else [])
         @ (if length eps > 0 \<and> totalRequests > 0 then
              [''Throughput: '' @ showInt totalRequests @ '' total requests over ''
                 @ toFixed 0 timeRangeMinutes @ '' minutes (avg: ''
                 @ toFixed 2 (js_quot (real_of_int totalRequests) timeRangeMinutes)
                 @ '' req/min)'']
            else []))"

definition generateSummaryObservations_first :: "date_runtime \<Rightarrow> perf_data \<Rightarrow> string list" where
  "generateSummaryObservations_first rt data =
     summaryObservations rt data (windowPods notBeforeWindow rt data)"

definition generateSummaryObservations_second :: "date_runtime \<Rightarrow> perf_data \<Rightarrow> string list" where
  "generateSummaryObservations_second rt data =
     summaryObservations rt data (windowPods restartedDuringWindow rt data)"

section \<open>Predicates of the specification and example inputs\<close>

text \<open>
  The words of the specification for the restart classifier: the value of point \<open>i\<close>
  exceeds the running maximum, that is, it exceeds the value of every earlier point.
\<close>

definition exceedsEarlier :: "(int \<times> jsvalue) list \<Rightarrow> nat \<Rightarrow> bool" where
  "exceedsEarlier points i =
     (0 < i \<and> i < length points
      \<and> list_all (\<lambda>p. toNumber (snd p) < toNumber (snd (points ! i))) (take i points))"

text \<open>
  The invariant of the scanning loop after the points \<open>1..n\<close>: \<open>maxValue\<close> is the greatest
  value seen, and \<open>latestRestartTime\<close> is the timestamp of the last point so far that
  exceeded all earlier ones.
\<close>

definition scanInvariant ::
  "(int \<times> jsvalue) list \<Rightarrow> nat \<Rightarrow> bool \<times> int option \<times> jsvalue \<Rightarrow> bool" where
  "scanInvariant points n st =
     (case st of (inc, latest, mx) \<Rightarrow>
        (\<forall>j \<le> n. toNumber (snd (points ! j)) \<le> toNumber mx)
        \<and> (\<exists>j \<le> n. toNumber (snd (points ! j)) = toNumber mx)
        \<and> ((latest = None \<and> (\<forall>i \<le> n. \<not> exceedsEarlier points i))
           \<or> (\<exists>i \<le> n. exceedsEarlier points i \<and> latest = Some (fst (points ! i))
                 \<and> (\<forall>k. i < k \<and> k \<le> n \<longrightarrow> \<not> exceedsEarlier points k))))"

text \<open>A pod whose classification entry has \<open>duringWindow = false\<close>.\<close>

definition classifiedBefore :: "timing_object \<Rightarrow> pod \<Rightarrow> bool" where
  "classifiedBefore restartTiming p =
     (case getTiming restartTiming (podName p) of Entry e \<Rightarrow> \<not> duringWindow e | _ \<Rightarrow> False)"

text \<open>The payload \<open>d\<close> with the pod list of its pod metrics \<open>pm\<close> replaced.\<close>

definition withPods :: "perf_data \<Rightarrow> pod_metrics_data \<Rightarrow> pod list \<Rightarrow> perf_data" where
  "withPods d pm pods = d\<lparr>podMetrics := Some (pm\<lparr>pm_podMetrics := Some pods\<rparr>)\<rparr>"

subsection \<open>The rules of the root-cause selector, in the words of the claim\<close>

text \<open>
  The memory peak of an entity is the \<open>maxMemory\<close> of the first entry with its name in
  \<open>podMetrics.containerMetrics.memory\<close>, when there is one. The restart total is the sum
  of the counts, a \<open>null\<close> count being \<open>0\<close>. The log error count is \<open>0\<close> when the field
  or an object on the way to it is missing.
\<close>

definition memoryList :: "perf_data \<Rightarrow> memory_metric list" where
  "memoryList d =
     (case podMetrics d of
        None \<Rightarrow> []
      | Some pm \<Rightarrow>
          (case containerMetrics pm of
             None \<Rightarrow> []
           | Some cm \<Rightarrow> (case memory cm of None \<Rightarrow> [] | Some ms \<Rightarrow> ms)))"

definition memoryPeak :: "perf_data \<Rightarrow> string \<Rightarrow> real option" where
  "memoryPeak d name = map_option maxMemory (find (\<lambda>m. mem_podName m = name) (memoryList d))"

definition restartTotal :: "pod list \<Rightarrow> int" where
  "restartTotal pods = sum_list (map (\<lambda>p. case restarts p of Present r \<Rightarrow> r | _ \<Rightarrow> 0) pods)"

definition logErrors :: "perf_data \<Rightarrow> int" where
  "logErrors d =
     (case errorMetrics d of
        None \<Rightarrow> 0
      | Some em \<Rightarrow>
          (case logSummary em of
             None \<Rightarrow> 0
           | Some ls \<Rightarrow> (case totalLogErrors ls of None \<Rightarrow> 0 | Some n \<Rightarrow> n)))"

text \<open>
  The five rules and their conditions in priority order; the first rule whose condition
  holds is the one that applies, the default when none does.
\<close>

datatype cause_rule =
  HighMemory | CorrelatedErrors | FrequentRestarts | MultiplePods | DefaultCause

definition ruleConditions :: "pod list \<Rightarrow> perf_data \<Rightarrow> (bool \<times> cause_rule) list" where
  "ruleConditions pods d =
     [(list_ex (\<lambda>p. case memoryPeak d (podName p) of None \<Rightarrow> False | Some x \<Rightarrow> 90 < x) pods,
       HighMemory),
      (0 < logErrors d \<and> 1 < restartTotal pods, CorrelatedErrors),
      (3 \<le> restartTotal pods, FrequentRestarts),
      (1 < length pods, MultiplePods)]"

definition firstMatchingRule :: "pod list \<Rightarrow> perf_data \<Rightarrow> cause_rule" where
  "firstMatchingRule pods d =
     (case find fst (ruleConditions pods d) of None \<Rightarrow> DefaultCause | Some (c, r) \<Rightarrow> r)"

fun ruleMessage :: "perf_data \<Rightarrow> cause_rule \<Rightarrow> string" where
  "ruleMessage d HighMemory = oomMessage"
| "ruleMessage d CorrelatedErrors = correlatedMessage (logErrors d)"
| "ruleMessage d FrequentRestarts = frequentMessage"
| "ruleMessage d MultiplePods = multiplePodsMessage"
| "ruleMessage d DefaultCause = monitorMessage"

subsection \<open>Restart series\<close>

text \<open>
  The three series of the specification's test list (an increase inside the window, a
  counter that was already positive, a counter that stays at zero), and a series whose
  only increase carries the timestamp \<open>0\<close>.
\<close>

definition windowExample :: "(int \<times> jsvalue) list" where
  "windowExample = [(1000, Some 0), (2000, Some 0), (3000, Some 5), (4000, Some 5)]"

definition beforeExample :: "(int \<times> jsvalue) list" where
  "beforeExample = [(1000, Some 2), (2000, Some 2), (3000, Some 2)]"

definition quietExample :: "(int \<times> jsvalue) list" where
  "quietExample = [(1000, Some 0), (2000, Some 0)]"

definition epochZeroExample :: "(int \<times> jsvalue) list" where
  "epochZeroExample = [(- 1000, Some 0), (0, Some 3)]"

definition seriesOf :: "string \<Rightarrow> (int \<times> jsvalue) list \<Rightarrow> dd_series" where
  "seriesOf name points =
     \<lparr>scope = None, expression = ''sum:restarts{pod_name:'' @ name @ ''}'',
      pointlist = Some points\<rparr>"

subsection \<open>Payloads\<close>

text \<open>
  A payload with one slow endpoint and two pods: \<open>api-1\<close> restarted five times inside the
  window, the two restarts of \<open>api-2\<close> date from before it.
\<close>

definition restartedPod :: "string \<Rightarrow> int \<Rightarrow> pod" where
  "restartedPod name n =
     \<lparr>podName = name, restarts = Present n, pod_avgCpuPct = 0, pod_maxCpuPct = 0,
      pod_avgMemoryPct = 0, pod_maxMemoryPct = 0\<rparr>"

definition podA :: pod where
  "podA = restartedPod ''api-1'' 5"

definition podB :: pod where
  "podB = restartedPod ''api-2'' 2"

definition examplePodMetrics :: pod_metrics_data where
  "examplePodMetrics =
     \<lparr>pm_podMetrics = Some [podA, podB],
      summary = None,
      timeSeries =
        Some \<lparr>ts_restarts =
          Some \<lparr>series = Some [seriesOf ''api-1'' windowExample, seriesOf ''api-2'' beforeExample],
                from_date = Present 1000, to_date = Present 4000\<rparr>\<rparr>,
      containerMetrics = None\<rparr>"

definition slowEndpoint :: metric where
  "slowEndpoint =
     \<lparr>resource_name = ''GET /orders'', requests = ''1000'', p95_latency = ''1500 ms'',
      errors = ''0'', error_rate = ''0''\<rparr>"

definition examplePayload :: perf_data where
  "examplePayload =
     \<lparr>metrics = [slowEndpoint], endpointMetrics = None, timeRange = None, errorMetrics = None,
      podMetrics = Some examplePodMetrics\<rparr>"

text \<open>A payload with a restarted pod and no restart time series at all.\<close>

definition untimedRestartPayload :: perf_data where
  "untimedRestartPayload =
     \<lparr>metrics = [], endpointMetrics = None, timeRange = None, errorMetrics = None,
      podMetrics = Some \<lparr>pm_podMetrics = Some [restartedPod ''api-1'' 2],
                         summary = None, timeSeries = None, containerMetrics = None\<rparr>\<rparr>"

text \<open>
  A payload whose only pod is named \<open>constructor\<close>, with five restarts and no restart time
  series.
\<close>

definition inheritedNamePodMetrics :: pod_metrics_data where
  "inheritedNamePodMetrics =
     \<lparr>pm_podMetrics = Some [restartedPod ''constructor'' 5], summary = None,
      timeSeries = None, containerMetrics = None\<rparr>"

definition inheritedNamePayload :: perf_data where
  "inheritedNamePayload =
     \<lparr>metrics = [], endpointMetrics = None, timeRange = None, errorMetrics = None,
      podMetrics = Some inheritedNamePodMetrics\<rparr>"

text \<open>A pod whose restart counter rises at the timestamp \<open>0\<close>.\<close>

definition epochZeroPodMetrics :: pod_metrics_data where
  "epochZeroPodMetrics =
     \<lparr>pm_podMetrics = Some [restartedPod ''api-1'' 3],
      summary = None,
      timeSeries =
        Some \<lparr>ts_restarts =
          Some \<lparr>series = Some [seriesOf ''api-1'' epochZeroExample],
                from_date = Present (- 1000), to_date = Present 0\<rparr>\<rparr>,
      containerMetrics = None\<rparr>"

definition epochZeroPayload :: perf_data where
  "epochZeroPayload =
     \<lparr>metrics = [], endpointMetrics = None, timeRange = None, errorMetrics = None,
      podMetrics = Some epochZeroPodMetrics\<rparr>"

text \<open>
  The specification's example for the root-cause selector in the documented payload
  shape: one pod row with \<open>maxMemoryPct = 95\<close> and two restarts, ten log errors, and no
  \<open>containerMetrics\<close>.
\<close>

definition hotPod :: pod where
  "hotPod =
     \<lparr>podName = ''api-1'', restarts = Present 2, pod_avgCpuPct = 10, pod_maxCpuPct = 20,
      pod_avgMemoryPct = 80, pod_maxMemoryPct = 95\<rparr>"

definition documentedPayload :: perf_data where
  "documentedPayload =
     \<lparr>metrics = [], endpointMetrics = None, timeRange = None,
      errorMetrics = Some \<lparr>logSummary = Some \<lparr>totalLogErrors = Some 10, topMessages = None\<rparr>\<rparr>,
      podMetrics = Some \<lparr>pm_podMetrics = Some [hotPod], summary = None, timeSeries = None,
                         containerMetrics = None\<rparr>\<rparr>"

text \<open>Inputs of the root-cause selector: memory peaks and a log error count.\<close>

definition causePayload :: "memory_metric list \<Rightarrow> int option \<Rightarrow> perf_data" where
  "causePayload mem errs =
     \<lparr>metrics = [], endpointMetrics = None, timeRange = None,
      errorMetrics = Some \<lparr>logSummary = Some \<lparr>totalLogErrors = errs, topMessages = None\<rparr>\<rparr>,
      podMetrics = Some \<lparr>pm_podMetrics = None, summary = None, timeSeries = None,
                         containerMetrics = Some \<lparr>memory = Some mem\<rparr>\<rparr>\<rparr>"

text \<open>A pod row without a count, and one whose count is \<open>null\<close>.\<close>

definition countlessPod :: "string \<Rightarrow> int jsfield \<Rightarrow> pod" where
  "countlessPod name c =
     \<lparr>podName = name, restarts = c, pod_avgCpuPct = 0, pod_maxCpuPct = 0,
      pod_avgMemoryPct = 0, pod_maxMemoryPct = 0\<rparr>"

section \<open>Properties of the fetcher\<close>

lemma percentileIndex_in_range:
  assumes "0 < n" and "pct < 100"
  shows "percentileIndex n pct < n"
proof -
  have "n * pct < n * 100" using assms by simp
  then show ?thesis unfolding percentileIndex_def
    by (simp add: less_mult_imp_div_less mult.commute)
qed

lemma sort_nth_mem: "i < length xs \<Longrightarrow> sort xs ! i \<in> set xs"
  by (metis length_sort nth_mem set_sort)

text \<open>
  Claim C5, as stated: the p95 aggregation returns a value that is present in the samples
  and is at most their maximum. The code multiplies the selected sample by 1000 (seconds
  to milliseconds), so for the single sample \<open>0.5\<close> it returns \<open>500\<close>, which is not a
  sample and exceeds the maximum.
\<close>

theorem p95_member_counterexample:
  "aggregateValues ''p95'' [1/2] = Num 500 \<and> (500::real) \<notin> set [1/2]
   \<and> Max (set [1/2::real]) < 500"
  by (simp add: aggregateValues_def percentileIndex_def scaledAt_def)

text \<open>
  Claim C5, amended: for every non-empty sample list, the p95 aggregation sorts ascending and
  selects the element at index \<open>floor(count * 0.95)\<close>, which is at most \<open>count - 1\<close>
  without any clamping; the selected element is present in the samples and is at most
  their maximum; the value returned is that element times 1000.
\<close>

theorem p95_scaled_element:
  assumes "values \<noteq> []"
  shows "percentileIndex (length values) 95 \<le> length values - 1
     \<and> sort values ! percentileIndex (length values) 95 \<in> set values
     \<and> sort values ! percentileIndex (length values) 95 \<le> Max (set values)
     \<and> aggregateValues ''p95'' values
          = Num (sort values ! percentileIndex (length values) 95 * 1000)"
proof -
  let ?i = "percentileIndex (length values) 95"
  have n: "0 < length values" using assms by simp
  have i: "?i < length values" using percentileIndex_in_range [OF n] by simp
  have m: "sort values ! ?i \<in> set values" using sort_nth_mem [OF i] .
  have le: "sort values ! ?i \<le> Max (set values)" using m by simp
  have v: "aggregateValues ''p95'' values = Num (sort values ! ?i * 1000)"
    using i by (simp add: aggregateValues_def scaledAt_def Let_def)
  from i m le v show ?thesis by simp
qed

theorem p95_scaled_element_witness:
  "aggregateValues ''p95'' [3, 1, 2] = Num 3000 \<and> percentileIndex 3 95 = 2"
  using p95_scaled_element [of "[3, 1, 2]"]
  by (simp add: percentileIndex_def)

text \<open>
  Claim C6, as stated: an empty sample set signals \<open>EmptyInputError\<close>. The code returns
  from the callback when no value is left after the \<open>null\<close> filter: a response whose only
  series holds \<open>null\<close> values yields the empty object and no error.
\<close>

theorem empty_samples_counterexample:
  "extractByResource
     (Some \<lparr>series = Some [\<lparr>scope = Some ''resource_name:GET_/orders'', expression = '''',
                            pointlist = Some [(1000, None), (2000, None)]\<rparr>]\<rparr>) ''p95''
     = Inr Map.empty
   \<and> extractByResource
     (Some \<lparr>series = Some [\<lparr>scope = Some ''resource_name:GET_/orders'', expression = '''',
                            pointlist = Some [(1000, None), (2000, None)]\<rparr>]\<rparr>) ''p95''
     \<noteq> Inl EmptyInputError"
  by (simp add: extractByResource_def extractSeries_def)

text \<open>
  Claim C6, amended: a series whose sample set is empty after the \<open>null\<close> filter is
  skipped silently: the accumulated object is left as it was, no entry is written for the
  resource, and the extraction returns normally.
\<close>

theorem empty_samples_skipped:
  assumes "pointlist s = Some pl" and "\<forall>p \<in> set pl. snd p = None"
  shows "extractSeries aggregationType byResource s = byResource
     \<and> extractByResource (Some \<lparr>series = Some [s]\<rparr>) aggregationType = Inr Map.empty"
proof -
  have "filter (\<lambda>v. v \<noteq> None) (map snd pl) = []"
    using assms(2) by (simp add: filter_empty_conv)
  then have "extractSeries aggregationType m s = m" for m
    using assms(1) by (simp add: extractSeries_def Let_def)
  then show ?thesis by (simp add: extractByResource_def)
qed

theorem empty_samples_skipped_witness:
  "extractSeries ''p95'' [''a'' \<mapsto> Num 1]
     \<lparr>scope = None, expression = '''', pointlist = Some [(1000, None)]\<rparr> = [''a'' \<mapsto> Num 1]"
  using empty_samples_skipped [of "\<lparr>scope = None, expression = '''', pointlist = Some [(1000, None)]\<rparr>"
      "[(1000, None)]" "''p95''" "[''a'' \<mapsto> Num 1]"]
  by simp

text \<open>
  Claim C7, as stated: the rate fails with \<open>InvalidWindowError\<close> for a window of zero or
  negative length. The code guards the division and returns \<open>0\<close> there.
\<close>

theorem rate_window_counterexample:
  "actualRate 10 0 = Inr 0 \<and> actualRate 10 (- 5) = Inr 0
   \<and> actualRate 10 0 \<noteq> Inl InvalidWindowError"
  by (simp add: actualRate_def)

text \<open>
  Claim C7, amended: the rate is \<open>totalCount / windowSeconds\<close> for every positive window
  (so the rate of a zero count is \<open>0\<close>), and it is \<open>0\<close>, with no error, for a window of
  zero or negative length.
\<close>

theorem rate_guarded:
  "(0 < w \<longrightarrow> actualRate c w = Inr (c / w) \<and> actualRate 0 w = Inr 0)
   \<and> (w \<le> 0 \<longrightarrow> actualRate c w = Inr 0)"
  by (simp add: actualRate_def)

theorem rate_guarded_witness:
  "actualRate 120 60 = Inr 2 \<and> actualRate 0 60 = Inr 0 \<and> actualRate 120 (- 60) = Inr 0"
  using rate_guarded [of 60 120] rate_guarded [of "- 60" 120]
  by simp

section \<open>Properties of the restart-timing classifier\<close>

lemma scanPoints_append:
  "scanPoints (xs @ ys) st = scanPoints ys (scanPoints xs st)"
  by (induction xs st rule: scanPoints.induct) auto

lemma exceedsEarlier_iff:
  "exceedsEarlier points i \<longleftrightarrow>
     0 < i \<and> i < length points
     \<and> (\<forall>j < i. toNumber (snd (points ! j)) < toNumber (snd (points ! i)))"
proof -
  have "i < length points \<Longrightarrow>
      (\<forall>p \<in> set (take i points). toNumber (snd p) < x) \<longleftrightarrow>
      (\<forall>j < i. toNumber (snd (points ! j)) < x)" for x
  proof
    assume i: "i < length points" and a: "\<forall>p \<in> set (take i points). toNumber (snd p) < x"
    show "\<forall>j < i. toNumber (snd (points ! j)) < x"
    proof (intro allI impI)
      fix j assume j: "j < i"
      have "take i points ! j \<in> set (take i points)" using i j by (intro nth_mem) simp
      then show "toNumber (snd (points ! j)) < x" using a j by simp
    qed
  next
    assume i: "i < length points" and a: "\<forall>j < i. toNumber (snd (points ! j)) < x"
    show "\<forall>p \<in> set (take i points). toNumber (snd p) < x"
    proof
      fix p assume "p \<in> set (take i points)"
      then obtain j where "j < length (take i points)" "take i points ! j = p"
        by (auto simp add: in_set_conv_nth)
      then show "toNumber (snd p) < x" using a i by auto
    qed
  qed
  then show ?thesis unfolding exceedsEarlier_def list_all_iff by blast
qed

lemma scanInvariant_step:
  assumes inv: "scanInvariant points n st" and n: "Suc n < length points"
  shows "scanInvariant points (Suc n) (scanPoints [points ! Suc n] st)"
proof -
  obtain inc latest mx where st: "st = (inc, latest, mx)" by (cases st) auto
  obtain t v where p: "points ! Suc n = (t, v)" by (cases "points ! Suc n") auto
  have le: "\<forall>j \<le> n. toNumber (snd (points ! j)) \<le> toNumber mx"
    and att: "\<exists>j \<le> n. toNumber (snd (points ! j)) = toNumber mx"
    and lat: "(latest = None \<and> (\<forall>i \<le> n. \<not> exceedsEarlier points i))
           \<or> (\<exists>i \<le> n. exceedsEarlier points i \<and> latest = Some (fst (points ! i))
                 \<and> (\<forall>k. i < k \<and> k \<le> n \<longrightarrow> \<not> exceedsEarlier points k))"
    using inv unfolding scanInvariant_def st by auto
  have ex: "exceedsEarlier points (Suc n) \<longleftrightarrow> toNumber v > toNumber mx"
  proof
    assume "exceedsEarlier points (Suc n)"
    then have "\<forall>j < Suc n. toNumber (snd (points ! j)) < toNumber v"
      unfolding exceedsEarlier_iff p by simp
    with att show "toNumber v > toNumber mx" by (metis le_imp_less_Suc)
  next
    assume gt: "toNumber v > toNumber mx"
    have "\<forall>j < Suc n. toNumber (snd (points ! j)) < toNumber v"
      using le gt by (metis less_Suc_eq_le le_less_trans)
    then show "exceedsEarlier points (Suc n)"
      unfolding exceedsEarlier_iff p using n by simp
  qed
  show ?thesis
  proof (cases "toNumber v > toNumber mx")
    case True
    then have s: "scanPoints [points ! Suc n] st = (True, Some t, v)"
      by (simp add: st p)
    have a: "\<forall>j \<le> Suc n. toNumber (snd (points ! j)) \<le> toNumber v"
      using le True p by (auto simp add: le_Suc_eq)
    have b: "\<exists>j \<le> Suc n. toNumber (snd (points ! j)) = toNumber v"
      using p by (intro exI [of _ "Suc n"]) simp
    have c: "\<exists>i \<le> Suc n. exceedsEarlier points i \<and> Some t = Some (fst (points ! i))
                 \<and> (\<forall>k. i < k \<and> k \<le> Suc n \<longrightarrow> \<not> exceedsEarlier points k)"
      using ex True p by (intro exI [of _ "Suc n"]) auto
    show ?thesis unfolding s scanInvariant_def using a b c by simp
  next
    case False
    then have s: "scanPoints [points ! Suc n] st = (inc, latest, mx)"
      by (simp add: st p)
    have nex: "\<not> exceedsEarlier points (Suc n)" using ex False by simp
    have a: "\<forall>j \<le> Suc n. toNumber (snd (points ! j)) \<le> toNumber mx"
      using le False p by (auto simp add: le_Suc_eq)
    have b: "\<exists>j \<le> Suc n. toNumber (snd (points ! j)) = toNumber mx"
      using att by (meson le_SucI)
    have c: "(latest = None \<and> (\<forall>i \<le> Suc n. \<not> exceedsEarlier points i))
           \<or> (\<exists>i \<le> Suc n. exceedsEarlier points i \<and> latest = Some (fst (points ! i))
                 \<and> (\<forall>k. i < k \<and> k \<le> Suc n \<longrightarrow> \<not> exceedsEarlier points k))"
      using lat
    proof
      assume "latest = None \<and> (\<forall>i \<le> n. \<not> exceedsEarlier points i)"
      then show ?thesis using nex by (auto simp add: le_Suc_eq)
    next
      assume "\<exists>i \<le> n. exceedsEarlier points i \<and> latest = Some (fst (points ! i))
                 \<and> (\<forall>k. i < k \<and> k \<le> n \<longrightarrow> \<not> exceedsEarlier points k)"
      then obtain i where i: "i \<le> n" "exceedsEarlier points i" "latest = Some (fst (points ! i))"
        "\<forall>k. i < k \<and> k \<le> n \<longrightarrow> \<not> exceedsEarlier points k" by blast
      have "\<forall>k. i < k \<and> k \<le> Suc n \<longrightarrow> \<not> exceedsEarlier points k"
        using i(4) nex by (auto simp add: le_Suc_eq)
      with i show ?thesis by (intro disjI2 exI [of _ i]) simp
    qed
    show ?thesis unfolding s scanInvariant_def using a b c by simp
  qed
qed

lemma scanInvariant_prefix:
  assumes "points = (t0, startValue) # rest" and "n \<le> length rest"
  shows "scanInvariant points n (scanPoints (take n rest) (False, None, startValue))"
  using assms(2)
proof (induction n)
  case 0
  show ?case
    by (simp add: scanInvariant_def assms(1) exceedsEarlier_def)
next
  case (Suc n)
  then have n: "n < length rest" by simp
  have inv: "scanInvariant points n (scanPoints (take n rest) (False, None, startValue))"
    using Suc by simp
  have len: "Suc n < length points" using n assms(1) by simp
  have nth: "points ! Suc n = rest ! n" using assms(1) by simp
  have "take (Suc n) rest = take n rest @ [rest ! n]"
    using n by (simp add: take_Suc_conv_app_nth)
  then have "scanPoints (take (Suc n) rest) (False, None, startValue)
      = scanPoints [points ! Suc n] (scanPoints (take n rest) (False, None, startValue))"
    by (simp add: scanPoints_append nth)
  then show ?case using scanInvariant_step [OF inv len] by simp
qed

lemma scanInvariant_final:
  assumes "points = (t0, startValue) # rest"
  shows "scanInvariant points (length rest) (scanPoints rest (False, None, startValue))"
  using scanInvariant_prefix [OF assms, of "length rest"] by simp


text \<open>
  For every series with at least one point whose later points carry non-zero timestamps,
  one forward pass decides the entry. If some later value exceeds all earlier values, the
  entry has \<open>duringWindow = true\<close> and its label is the formatted timestamp of the last
  such point followed by \<open>EST\<close>; otherwise, if the first value is positive, the entry has
  \<open>duringWindow = false\<close> and its label is \<open>Before\<close>, the formatted window start and
  \<open>EST\<close>; otherwise the series writes nothing.
\<close>

lemma restart_classification:
  assumes "points \<noteq> []" and "\<forall>p \<in> set (tl points). fst p \<noteq> 0"
    and "pointlist s = Some points" and "matchPodName (expression s) = Some name"
  shows "(\<forall>i. exceedsEarlier points i \<and> (\<forall>k. i < k \<longrightarrow> \<not> exceedsEarlier points k)
            \<longrightarrow> classifySeries rt monitoringStart points
                  = Some \<lparr>exactTime = formatDate rt True (Some (fst (points ! i))) @ '' EST'',
                          duringWindow = True\<rparr>)
     \<and> ((\<forall>i. \<not> exceedsEarlier points i) \<and> toNumber (snd (hd points)) > 0
            \<longrightarrow> classifySeries rt monitoringStart points
                  = Some \<lparr>exactTime = ''Before '' @ formatDate rt False monitoringStart @ '' EST'',
                          duringWindow = False\<rparr>)
     \<and> ((\<forall>i. \<not> exceedsEarlier points i) \<and> \<not> toNumber (snd (hd points)) > 0
            \<longrightarrow> classifySeries rt monitoringStart points = None)
     \<and> restartSeriesStep rt monitoringStart obj s
           = (case classifySeries rt monitoringStart points of
                None \<Rightarrow> obj
              | Some e \<Rightarrow> setTiming obj name e)"
proof -
  obtain t0 startValue rest where pts: "points = (t0, startValue) # rest"
    using assms(1) by (cases points) auto
  obtain inc latest mx where sc: "scanPoints rest (False, None, startValue) = (inc, latest, mx)"
    by (cases "scanPoints rest (False, None, startValue)") auto
  have inv: "scanInvariant points (length rest) (inc, latest, mx)"
    using scanInvariant_final [OF pts] sc by simp
  have lat: "(latest = None \<and> (\<forall>i \<le> length rest. \<not> exceedsEarlier points i))
           \<or> (\<exists>i \<le> length rest. exceedsEarlier points i \<and> latest = Some (fst (points ! i))
                 \<and> (\<forall>k. i < k \<and> k \<le> length rest \<longrightarrow> \<not> exceedsEarlier points k))"
    using inv unfolding scanInvariant_def by simp
  have bound: "exceedsEarlier points i \<Longrightarrow> i \<le> length rest \<and> 0 < i" for i
    unfolding exceedsEarlier_def pts by simp
  have nz: "exceedsEarlier points i \<Longrightarrow> fst (points ! i) \<noteq> 0" for i
  proof -
    assume e: "exceedsEarlier points i"
    then have "0 < i" "i < length points" unfolding exceedsEarlier_def by simp_all
    then have "points ! i \<in> set (tl points)"
      unfolding pts by (cases i) simp_all
    then show ?thesis using assms(2) by blast
  qed
  have cls: "classifySeries rt monitoringStart points =
      (if truthyTime latest then
         Some \<lparr>exactTime = formatDate rt True latest @ '' EST'', duringWindow = True\<rparr>
       else if toNumber startValue > 0 then
         Some \<lparr>exactTime = ''Before '' @ formatDate rt False monitoringStart @ '' EST'',
               duringWindow = False\<rparr>
       else None)"
    by (simp add: classifySeries_def pts sc)
  have p1: "\<forall>i. exceedsEarlier points i \<and> (\<forall>k. i < k \<longrightarrow> \<not> exceedsEarlier points k)
            \<longrightarrow> classifySeries rt monitoringStart points
                  = Some \<lparr>exactTime = formatDate rt True (Some (fst (points ! i))) @ '' EST'',
                          duringWindow = True\<rparr>"
  proof (intro allI impI)
    fix i assume a: "exceedsEarlier points i \<and> (\<forall>k. i < k \<longrightarrow> \<not> exceedsEarlier points k)"
    from lat a bound obtain j where j: "exceedsEarlier points j" "latest = Some (fst (points ! j))"
      "\<forall>k. j < k \<and> k \<le> length rest \<longrightarrow> \<not> exceedsEarlier points k" by blast
    have "j = i"
    proof (rule ccontr)
      assume "j \<noteq> i"
      then consider "j < i" | "i < j" by linarith
      then show False
      proof cases
        case 1
        then show False using j(3) a bound by blast
      next
        case 2
        then show False using a j(1) by blast
      qed
    qed
    then have "latest = Some (fst (points ! i))" "truthyTime latest"
      using j(2) nz [OF j(1)] by (simp_all add: truthyTime_def)
    then show "classifySeries rt monitoringStart points
                  = Some \<lparr>exactTime = formatDate rt True (Some (fst (points ! i))) @ '' EST'',
                          duringWindow = True\<rparr>"
      by (simp add: cls)
  qed
  have none: "(\<forall>i. \<not> exceedsEarlier points i) \<Longrightarrow> latest = None"
    using lat by blast
  have hd: "snd (hd points) = startValue" by (simp add: pts)
  have p2: "(\<forall>i. \<not> exceedsEarlier points i) \<and> toNumber (snd (hd points)) > 0
            \<longrightarrow> classifySeries rt monitoringStart points
                  = Some \<lparr>exactTime = ''Before '' @ formatDate rt False monitoringStart @ '' EST'',
                          duringWindow = False\<rparr>"
    using none by (simp add: cls hd truthyTime_def)
  have p3: "(\<forall>i. \<not> exceedsEarlier points i) \<and> \<not> toNumber (snd (hd points)) > 0
            \<longrightarrow> classifySeries rt monitoringStart points = None"
    using none by (simp add: cls hd truthyTime_def)
  have p4: "restartSeriesStep rt monitoringStart obj s
           = (case classifySeries rt monitoringStart points of
                None \<Rightarrow> obj
              | Some e \<Rightarrow> setTiming obj name e)"
    using assms(1,3,4) by (simp add: restartSeriesStep_def)
  from p1 p2 p3 p4 show ?thesis by blast
qed

text \<open>The whole function on a payload with one named, non-empty series.\<close>

lemma analyzeRestartTiming_single:
  assumes "timeSeries pm = Some ts" and "ts_restarts ts = Some r" and "series r = Some [s]"
    and "pointlist s = Some points" and "points \<noteq> []"
    and "matchPodName (expression s) = Some name"
  shows "analyzeRestartTiming rt pm
     = (case classifySeries rt (dateArgument (from_date r)) points of
          None \<Rightarrow> emptyTiming
        | Some e \<Rightarrow> setTiming emptyTiming name e)"
  using assms by (simp add: analyzeRestartTiming_def restartSeriesStep_def)

lemma windowExample_increase:
  "exceedsEarlier windowExample 2 \<and> (\<forall>k. 2 < k \<longrightarrow> \<not> exceedsEarlier windowExample k)"
proof -
  have a: "exceedsEarlier windowExample 2"
    by (simp add: windowExample_def exceedsEarlier_def toNumber_def)
  have b: "\<not> exceedsEarlier windowExample k" if "2 < k" for k
  proof (cases "k = 3")
    case True
    then show ?thesis
      by (simp add: windowExample_def exceedsEarlier_def toNumber_def)
  next
    case False
    with that have "\<not> k < length windowExample" by (simp add: windowExample_def)
    then show ?thesis by (simp add: exceedsEarlier_def)
  qed
  from a b show ?thesis by blast
qed

lemma beforeExample_flat: "\<not> exceedsEarlier beforeExample i"
proof (cases "i = 1 \<or> i = 2")
  case True
  then show ?thesis
    by (auto simp add: beforeExample_def exceedsEarlier_def toNumber_def)
next
  case False
  then have "i = 0 \<or> \<not> i < length beforeExample" by (auto simp add: beforeExample_def)
  then show ?thesis by (auto simp add: exceedsEarlier_def)
qed

lemma quietExample_flat: "\<not> exceedsEarlier quietExample i"
proof (cases "i = 1")
  case True
  then show ?thesis
    by (simp add: quietExample_def exceedsEarlier_def toNumber_def)
next
  case False
  then have "i = 0 \<or> \<not> i < length quietExample" by (auto simp add: quietExample_def)
  then show ?thesis by (auto simp add: exceedsEarlier_def)
qed

lemma seriesOf_name:
  "matchPodName (expression (seriesOf ''api-1'' points)) = Some ''api-1''"
  "matchPodName (expression (seriesOf ''api-2'' points)) = Some ''api-2''"
  by (simp_all add: seriesOf_def matchPodName_def isWordChar_def isDigit_def)

lemma epochRuntime_format:
  "formatDate epochRuntime withSeconds (Some 1000) = ''1000''"
  "formatDate epochRuntime withSeconds (Some 3000) = ''3000''"
  by (simp_all add: epochRuntime_def showInt_def showNat.simps digitChar_def)

lemma restart_classification_examples:
  "exceedsEarlier windowExample 2
   \<and> classifySeries epochRuntime (Some 1000) windowExample
        = Some \<lparr>exactTime = ''3000 EST'', duringWindow = True\<rparr>
   \<and> classifySeries epochRuntime (Some 1000) beforeExample
        = Some \<lparr>exactTime = ''Before 1000 EST'', duringWindow = False\<rparr>
   \<and> classifySeries epochRuntime (Some 1000) quietExample = None
   \<and> restartSeriesStep epochRuntime (Some 1000) emptyTiming (seriesOf ''api-1'' quietExample)
        = emptyTiming"
proof -
  have w: "classifySeries epochRuntime (Some 1000) windowExample
        = Some \<lparr>exactTime = formatDate epochRuntime True (Some (fst (windowExample ! 2))) @ '' EST'',
                duringWindow = True\<rparr>"
    using restart_classification [of windowExample "seriesOf ''api-1'' windowExample" "''api-1''"
        epochRuntime "Some 1000"] windowExample_increase seriesOf_name(1)
    by (simp add: windowExample_def seriesOf_def)
  have b: "classifySeries epochRuntime (Some 1000) beforeExample
        = Some \<lparr>exactTime = ''Before '' @ formatDate epochRuntime False (Some 1000) @ '' EST'',
                duringWindow = False\<rparr>"
    using restart_classification [of beforeExample "seriesOf ''api-1'' beforeExample" "''api-1''"
        epochRuntime "Some 1000"] beforeExample_flat seriesOf_name(1)
    by (simp add: beforeExample_def seriesOf_def toNumber_def)
  have q: "classifySeries epochRuntime (Some 1000) quietExample = None"
    using restart_classification [of quietExample "seriesOf ''api-1'' quietExample" "''api-1''"
        epochRuntime "Some 1000"] quietExample_flat seriesOf_name(1)
    by (simp add: quietExample_def seriesOf_def toNumber_def)
  have s: "restartSeriesStep epochRuntime (Some 1000) emptyTiming (seriesOf ''api-1'' quietExample)
        = emptyTiming"
    using restart_classification [of quietExample "seriesOf ''api-1'' quietExample" "''api-1''"
        epochRuntime "Some 1000" emptyTiming] seriesOf_name(1) q
    by (simp add: quietExample_def seriesOf_def)
  have f: "fst (windowExample ! 2) = 3000" by (simp add: windowExample_def)
  from w b q s f epochRuntime_format windowExample_increase show ?thesis by simp
qed

text \<open>
  Claim C2: a later value that exceeds the running maximum classifies the entity as
  restarted during the window. The code records the increase (the flag
  \<open>restartIncrease\<close> becomes true, under the comment that the restart count increased
  during monitoring) and then tests the recorded timestamp for truthiness instead of the
  flag. In the series \<open>[[-1000, 0], [0, 3]]\<close> the second value exceeds the first and the
  scan ends with the flag set and the timestamp \<open>0\<close>; the classifier writes no entry,
  and the lookup of the pod finds nothing.
\<close>

theorem zero_timestamp_increase_dropped:
  "exceedsEarlier epochZeroExample 1
   \<and> scanPoints (tl epochZeroExample) (False, None, snd (hd epochZeroExample))
       = (True, Some 0, Some 3)
   \<and> classifySeries epochRuntime (Some (- 1000)) epochZeroExample = None
   \<and> analyzeRestartTiming epochRuntime epochZeroPodMetrics = emptyTiming
   \<and> getTiming (analyzeRestartTiming epochRuntime epochZeroPodMetrics) ''api-1'' = NoValue
   \<and> analyzePerformanceData epochRuntime epochZeroPayload
       = \<lparr>findings = [''<strong>'' @ checkMark @ '' All metrics within acceptable thresholds</strong>''],
          recommendations =
            [''Continue monitoring performance trends over time'',
             ''Establish this test as a baseline for future regression testing''],
          overallStatus = Good\<rparr>"
proof -
  have e: "exceedsEarlier epochZeroExample 1"
    by (simp add: epochZeroExample_def exceedsEarlier_def toNumber_def)
  have sc: "scanPoints (tl epochZeroExample) (False, None, snd (hd epochZeroExample))
       = (True, Some 0, Some 3)"
    by (simp add: epochZeroExample_def toNumber_def)
  have c: "classifySeries epochRuntime (Some (- 1000)) epochZeroExample = None"
    by (simp add: epochZeroExample_def classifySeries_def toNumber_def truthyTime_def)
  have ne: "epochZeroExample \<noteq> []" by (simp add: epochZeroExample_def)
  have t: "analyzeRestartTiming epochRuntime epochZeroPodMetrics = emptyTiming"
    using analyzeRestartTiming_single [of epochZeroPodMetrics _ _ "seriesOf ''api-1'' epochZeroExample"
        epochZeroExample "''api-1''" epochRuntime] ne seriesOf_name(1) c
    by (simp add: epochZeroPodMetrics_def seriesOf_def dateArgument_def)
  have g: "getTiming emptyTiming ''api-1'' = NoValue"
    by (simp add: getTiming_def emptyTiming_def objectPrototypeKeys_def)
  have f: "podMetrics epochZeroPayload = Some epochZeroPodMetrics"
    "metrics epochZeroPayload = []" "errorMetrics epochZeroPayload = None"
    "pm_podMetrics epochZeroPodMetrics = Some [restartedPod ''api-1'' 3]"
    "summary epochZeroPodMetrics = None"
    by (simp_all add: epochZeroPayload_def epochZeroPodMetrics_def)
  have nr: "\<not> restartedDuringWindow emptyTiming (restartedPod ''api-1'' 3)"
    by (simp add: restartedDuringWindow_def restartedPod_def g)
  have r: "analyzePerformanceData epochRuntime epochZeroPayload
       = \<lparr>findings = [''<strong>'' @ checkMark @ '' All metrics within acceptable thresholds</strong>''],
          recommendations =
            [''Continue monitoring performance trends over time'',
             ''Establish this test as a baseline for future regression testing''],
          overallStatus = Good\<rparr>"
    by (simp add: analyzePerformanceData_def analysisTrace_def analysisSteps_def restartCheck_def
        latencyAnalysis_def endpointErrorAnalysis_def logErrorAnalysis_def throughputAnalysis_def
        resourceUtilization_def podRestartAnalysis_def generalRecommendations_def f t nr
        totalRestartsOf_def initialVerdict_def Let_def)
  from e sc c t g r show ?thesis by simp
qed

section \<open>Properties of the root-cause selector\<close>

lemma messages_distinct:
  "distinct [oomMessage, correlatedMessage n, frequentMessage, multiplePodsMessage, monitorMessage]"
  by (simp add: oomMessage_def correlatedMessage_def frequentMessage_def multiplePodsMessage_def
      monitorMessage_def)

lemma foldl_addRestarts_total:
  "\<forall>p \<in> set pods. restarts p \<noteq> Absent \<Longrightarrow>
     foldl addRestarts (Some a) pods = Some (a + restartTotal pods)"
proof (induction pods arbitrary: a)
  case Nil
  show ?case by (simp add: restartTotal_def)
next
  case (Cons p pods)
  then have rest: "\<forall>q \<in> set pods. restarts q \<noteq> Absent" by simp
  show ?case
  proof (cases "restarts p")
    case Absent
    with Cons.prems show ?thesis by simp
  next
    case Null
    then have "addRestarts (Some a) p = Some a" by (simp add: addRestarts_def addJsInt_def)
    then show ?thesis using Cons.IH [OF rest, of a] Null by (simp add: restartTotal_def)
  next
    case (Present r)
    then have "addRestarts (Some a) p = Some (a + r)" by (simp add: addRestarts_def addJsInt_def)
    then show ?thesis using Cons.IH [OF rest, of "a + r"] Present by (simp add: restartTotal_def)
  qed
qed

lemma sumRestarts_total:
  "\<forall>p \<in> set pods. restarts p \<noteq> Absent \<Longrightarrow> sumRestarts pods = Some (restartTotal pods)"
  using foldl_addRestarts_total [of pods 0] by (simp add: sumRestarts_def)

lemma foldl_addRestarts_NaN: "foldl addRestarts None pods = None"
  by (induction pods) (simp_all add: addRestarts_def addJsInt_def split: jsfield.splits)

lemma foldl_addRestarts_absent:
  "\<exists>p \<in> set pods. restarts p = Absent \<Longrightarrow> foldl addRestarts acc pods = None"
proof (induction pods arbitrary: acc)
  case Nil
  then show ?case by simp
next
  case (Cons p pods)
  show ?case
  proof (cases "restarts p = Absent")
    case True
    then have "addRestarts acc p = None" by (simp add: addRestarts_def)
    then show ?thesis by (simp add: foldl_addRestarts_NaN)
  next
    case False
    with Cons.prems have "\<exists>q \<in> set pods. restarts q = Absent" by auto
    then show ?thesis using Cons.IH by simp
  qed
qed

lemma sumRestarts_absent:
  "\<exists>p \<in> set pods. restarts p = Absent \<Longrightarrow> sumRestarts pods = None"
  by (simp add: sumRestarts_def foldl_addRestarts_absent)

lemma podHasHighMemory_peak:
  "podHasHighMemory d p = (case memoryPeak d (podName p) of None \<Rightarrow> False | Some x \<Rightarrow> 90 < x)"
  by (simp add: podHasHighMemory_def memoryPeak_def memoryList_def split: option.splits)

lemma hasLogErrors_iff: "hasLogErrors d = (0 < logErrors d)"
  by (simp add: hasLogErrors_def logErrorCount_def logErrors_def positiveJsInt_def
      split: option.splits)

lemma logErrorCount_positive: "0 < logErrors d \<Longrightarrow> logErrorCount d = Some (logErrors d)"
  by (cases "errorMetrics d"; cases "logSummary (the (errorMetrics d))";
      cases "totalLogErrors (the (logSummary (the (errorMetrics d))))")
    (simp_all add: logErrorCount_def logErrors_def)

text \<open>
  Claim C4, as stated: when no earlier rule matches, more than one distinct restarted
  entity gives the service-level message, else the default; and an entity with a memory
  peak above 90 percent gives the out-of-memory message before rule 2. The code counts
  the rows of the list, so one pod listed twice gives the service-level message; and it
  looks the memory peak up in \<open>podMetrics.containerMetrics.memory\<close>, so the pod row of the
  documented payload with \<open>maxMemoryPct = 95\<close>, ten log errors and two restarts gets the
  message of rule 2.
\<close>

theorem root_cause_counterexample:
  "getMainRestartCause [restartedPod ''api-1'' 1, restartedPod ''api-1'' 1] (causePayload [] None)
     = multiplePodsMessage
   \<and> remdups (map podName [restartedPod ''api-1'' 1, restartedPod ''api-1'' 1]) = [''api-1'']
   \<and> multiplePodsMessage \<noteq> monitorMessage
   \<and> pod_maxMemoryPct hotPod = 95
   \<and> getMainRestartCause [hotPod] documentedPayload = correlatedMessage 10
   \<and> correlatedMessage 10 \<noteq> oomMessage"
proof -
  have a: "getMainRestartCause [restartedPod ''api-1'' 1, restartedPod ''api-1'' 1]
      (causePayload [] None) = multiplePodsMessage"
    by (simp add: getMainRestartCause_def sumRestarts_def addRestarts_def addJsInt_def
        restartedPod_def podHasHighMemory_def causePayload_def hasLogErrors_def logErrorCount_def
        positiveJsInt_def)
  have b: "getMainRestartCause [hotPod] documentedPayload = correlatedMessage 10"
    by (simp add: getMainRestartCause_def sumRestarts_def addRestarts_def addJsInt_def hotPod_def
        podHasHighMemory_def documentedPayload_def hasLogErrors_def logErrorCount_def
        positiveJsInt_def)
  have c: "remdups (map podName [restartedPod ''api-1'' 1, restartedPod ''api-1'' 1]) = [''api-1'']"
    "pod_maxMemoryPct hotPod = 95"
    by (simp_all add: restartedPod_def hotPod_def)
  from a b c messages_distinct [of 10] show ?thesis by auto
qed

text \<open>
  Claim C4, amended: the five rules are tried in their fixed order and the message of the
  first rule whose condition holds is returned. Rule 1 holds when some pod of the list
  has an entry in \<open>podMetrics.containerMetrics.memory\<close> whose \<open>maxMemory\<close> exceeds 90; rule 2
  when the log error count is positive and the sum of the restart counts exceeds 1; rule
  3 when that sum is at least 3; rule 4 when the list has more than one row; rule 5 is
  the default. When a row has no restart count the sum is \<open>NaN\<close> and rules 2 and 3 cannot
  hold. The five messages are pairwise different, so the message tells the rule.
\<close>

theorem root_cause_first_match:
  "((\<forall>p \<in> set pods. restarts p \<noteq> Absent)
      \<longrightarrow> getMainRestartCause pods d = ruleMessage d (firstMatchingRule pods d))
   \<and> ((\<exists>p \<in> set pods. restarts p = Absent)
      \<longrightarrow> getMainRestartCause pods d =
           (if list_ex (\<lambda>p. case memoryPeak d (podName p) of None \<Rightarrow> False | Some x \<Rightarrow> 90 < x) pods
            then oomMessage
            else if 1 < length pods then multiplePodsMessage
            else monitorMessage))
   \<and> distinct [oomMessage, correlatedMessage n, frequentMessage, multiplePodsMessage,
        monitorMessage]"
proof -
  have mem: "podHasHighMemory d
      = (\<lambda>p. case memoryPeak d (podName p) of None \<Rightarrow> False | Some x \<Rightarrow> 90 < x)"
    by (rule ext) (rule podHasHighMemory_peak)
  have a: "getMainRestartCause pods d = ruleMessage d (firstMatchingRule pods d)"
    if "\<forall>p \<in> set pods. restarts p \<noteq> Absent"
  proof -
    have s: "sumRestarts pods = Some (restartTotal pods)"
      using that by (rule sumRestarts_total)
    show ?thesis
      by (auto simp add: getMainRestartCause_def s mem hasLogErrors_iff logErrorCount_positive
          firstMatchingRule_def ruleConditions_def Let_def)
  qed
  have b: "getMainRestartCause pods d =
           (if list_ex (\<lambda>p. case memoryPeak d (podName p) of None \<Rightarrow> False | Some x \<Rightarrow> 90 < x) pods
            then oomMessage
            else if 1 < length pods then multiplePodsMessage
            else monitorMessage)"
    if "\<exists>p \<in> set pods. restarts p = Absent"
  proof -
    have s: "sumRestarts pods = None"
      using that by (rule sumRestarts_absent)
    show ?thesis
      by (simp add: getMainRestartCause_def s mem Let_def)
  qed
  from a b messages_distinct show ?thesis by blast
qed

lemma causePayload_signals:
  "memoryPeak (causePayload mem errs) name
     = map_option maxMemory (find (\<lambda>m. mem_podName m = name) mem)"
  "logErrors (causePayload mem (Some k)) = k"
  "logErrors (causePayload mem None) = 0"
  by (simp_all add: memoryPeak_def memoryList_def logErrors_def causePayload_def)

lemma pod_fields:
  "podName (restartedPod name k) = name"
  "restarts (restartedPod name k) = Present k"
  "podName (countlessPod name c) = name"
  "restarts (countlessPod name c) = c"
  by (simp_all add: restartedPod_def countlessPod_def)

theorem root_cause_first_match_witness:
  "getMainRestartCause [restartedPod ''api-1'' 2]
     (causePayload [\<lparr>mem_podName = ''api-1'', maxMemory = 95\<rparr>] (Some 10)) = oomMessage
   \<and> getMainRestartCause [restartedPod ''api-1'' 2] (causePayload [] (Some 10))
       = correlatedMessage 10
   \<and> getMainRestartCause [restartedPod ''api-1'' 1, restartedPod ''api-2'' 1]
       (causePayload [] (Some 10)) = correlatedMessage 10
   \<and> getMainRestartCause [restartedPod ''api-1'' 1, restartedPod ''api-2'' 2]
       (causePayload [] None) = frequentMessage
   \<and> getMainRestartCause [countlessPod ''api-1'' Null, restartedPod ''api-2'' 3]
       (causePayload [] None) = frequentMessage
   \<and> getMainRestartCause [restartedPod ''api-1'' 1, restartedPod ''api-2'' 1]
       (causePayload [] None) = multiplePodsMessage
   \<and> getMainRestartCause [restartedPod ''api-1'' 1] (causePayload [] None) = monitorMessage
   \<and> getMainRestartCause [countlessPod ''api-1'' Absent, restartedPod ''api-2'' 5]
       (causePayload [] (Some 10)) = multiplePodsMessage
   \<and> oomMessage \<noteq> correlatedMessage 10"
proof -
  note ev = firstMatchingRule_def ruleConditions_def restartTotal_def causePayload_signals
    pod_fields
  have r1: "getMainRestartCause [restartedPod ''api-1'' 2]
     (causePayload [\<lparr>mem_podName = ''api-1'', maxMemory = 95\<rparr>] (Some 10)) = oomMessage
     \<and> oomMessage \<noteq> correlatedMessage 10"
    using root_cause_first_match [of "[restartedPod ''api-1'' 2]"
        "causePayload [\<lparr>mem_podName = ''api-1'', maxMemory = 95\<rparr>] (Some 10)" 10]
    by (simp add: ev)
  have r2: "getMainRestartCause [restartedPod ''api-1'' 2] (causePayload [] (Some 10))
       = correlatedMessage 10"
    using root_cause_first_match [of "[restartedPod ''api-1'' 2]" "causePayload [] (Some 10)" 10]
    by (simp add: ev)
  have r2': "getMainRestartCause [restartedPod ''api-1'' 1, restartedPod ''api-2'' 1]
       (causePayload [] (Some 10)) = correlatedMessage 10"
    using root_cause_first_match [of "[restartedPod ''api-1'' 1, restartedPod ''api-2'' 1]"
        "causePayload [] (Some 10)" 10]
    by (simp add: ev)
  have r3: "getMainRestartCause [restartedPod ''api-1'' 1, restartedPod ''api-2'' 2]
       (causePayload [] None) = frequentMessage"
    using root_cause_first_match [of "[restartedPod ''api-1'' 1, restartedPod ''api-2'' 2]"
        "causePayload [] None" 10]
    by (simp add: ev)
  have r3': "getMainRestartCause [countlessPod ''api-1'' Null, restartedPod ''api-2'' 3]
       (causePayload [] None) = frequentMessage"
    using root_cause_first_match [of "[countlessPod ''api-1'' Null, restartedPod ''api-2'' 3]"
        "causePayload [] None" 10]
    by (simp add: ev)
  have r4: "getMainRestartCause [restartedPod ''api-1'' 1, restartedPod ''api-2'' 1]
       (causePayload [] None) = multiplePodsMessage"
    using root_cause_first_match [of "[restartedPod ''api-1'' 1, restartedPod ''api-2'' 1]"
        "causePayload [] None" 10]
    by (simp add: ev)
  have r5: "getMainRestartCause [restartedPod ''api-1'' 1] (causePayload [] None) = monitorMessage"
    using root_cause_first_match [of "[restartedPod ''api-1'' 1]" "causePayload [] None" 10]
    by (simp add: ev)
  have r6: "getMainRestartCause [countlessPod ''api-1'' Absent, restartedPod ''api-2'' 5]
       (causePayload [] (Some 10)) = multiplePodsMessage"
    using root_cause_first_match [of "[countlessPod ''api-1'' Absent, restartedPod ''api-2'' 5]"
        "causePayload [] (Some 10)" 10]
    by (simp add: ev)
  from r1 r2 r2' r3 r3' r4 r5 r6 show ?thesis by simp
qed

section \<open>Properties of the finding generator\<close>

subsection \<open>The status after each step\<close>

lemma atLeastWarning_mono: "severity s \<le> severity (atLeastWarning s)"
  by (cases s) (simp_all add: atLeastWarning_def)

lemma severity_le_2: "severity s \<le> 2"
  by (cases s) simp_all

lemma latencyAnalysis_status:
  "overallStatus (latencyAnalysis d v) = Warning
   \<or> overallStatus (latencyAnalysis d v) = overallStatus v"
  by (simp add: latencyAnalysis_def Let_def)

text \<open>With one endpoint above 1000 ms the latency analysis sets \<open>warning\<close>, from any status.\<close>

lemma latencyAnalysis_lowers:
  assumes "\<exists>m \<in> set (metrics d). js_gt (parseFloat (p95_latency m)) (Num 1000)"
  shows "overallStatus (latencyAnalysis d v) = Warning"
proof -
  have "filter (\<lambda>m. js_gt (parseFloat (p95_latency m)) (Num 1000)) (metrics d) \<noteq> []"
    using assms by (simp add: filter_empty_conv)
  then show ?thesis by (simp add: latencyAnalysis_def Let_def)
qed

lemma endpointErrorAnalysis_mono:
  "severity (overallStatus v) \<le> severity (overallStatus (endpointErrorAnalysis d v))"
  by (simp add: endpointErrorAnalysis_def Let_def atLeastWarning_mono)

lemma logErrorAnalysis_mono:
  "severity (overallStatus v) \<le> severity (overallStatus (logErrorAnalysis d v))"
  by (simp add: logErrorAnalysis_def Let_def atLeastWarning_mono split: option.splits list.splits)

lemma throughputAnalysis_status:
  "overallStatus (throughputAnalysis rt d v) = overallStatus v"
  by (simp add: throughputAnalysis_def Let_def)

lemma throughputAnalysis_recommendations:
  "recommendations (throughputAnalysis rt d v) = recommendations v"
  by (simp add: throughputAnalysis_def Let_def)

lemma throughputAnalysis_findings:
  "\<exists>fs. findings (throughputAnalysis rt d v) = findings v @ fs \<and> length fs \<le> 1"
  by (simp add: throughputAnalysis_def Let_def)

lemma resourceUtilization_mono:
  "severity (overallStatus v) \<le> severity (overallStatus (resourceUtilization d v))"
  by (simp add: resourceUtilization_def Let_def atLeastWarning_mono
      le_trans [OF atLeastWarning_mono atLeastWarning_mono] split: option.splits)

lemma podRestartAnalysis_mono:
  "severity (overallStatus v) \<le> severity (overallStatus (podRestartAnalysis rt d v))"
  by (simp add: podRestartAnalysis_def Let_def atLeastWarning_mono severity_le_2
      split: option.splits)

lemma generalRecommendations_status:
  "overallStatus (generalRecommendations v) = overallStatus v"
  by (simp add: generalRecommendations_def)

lemma restartCheck_critical:
  assumes "overallStatus (restartCheck rt d initialVerdict) = Critical"
  shows "overallStatus (podRestartAnalysis rt d v) = Critical"
  using assms
  by (auto simp add: restartCheck_def podRestartAnalysis_def initialVerdict_def Let_def
      split: option.splits if_splits)

lemma trace_unfold:
  "analysisTrace rt d =
     (let v1 = restartCheck rt d initialVerdict; v2 = latencyAnalysis d v1;
          v3 = endpointErrorAnalysis d v2; v4 = logErrorAnalysis d v3;
          v5 = throughputAnalysis rt d v4; v6 = resourceUtilization d v5;
          v7 = podRestartAnalysis rt d v6; v8 = generalRecommendations v7
      in [initialVerdict, v1, v2, v3, v4, v5, v6, v7, v8])"
  by (simp add: analysisTrace_def analysisSteps_def Let_def)

text \<open>
  Every step but the latency analysis keeps or raises the status, and the pod restart
  analysis restores \<open>critical\<close> whenever the first restart check had set it: the status
  that is returned is the greatest status of the run.
\<close>

lemma final_status_maximum:
  "\<forall>v \<in> set (analysisTrace rt d).
     severity (overallStatus v) \<le> severity (overallStatus (analyzePerformanceData rt d))"
proof -
  define v1 where "v1 = restartCheck rt d initialVerdict"
  define v2 where "v2 = latencyAnalysis d v1"
  define v3 where "v3 = endpointErrorAnalysis d v2"
  define v4 where "v4 = logErrorAnalysis d v3"
  define v5 where "v5 = throughputAnalysis rt d v4"
  define v6 where "v6 = resourceUtilization d v5"
  define v7 where "v7 = podRestartAnalysis rt d v6"
  define v8 where "v8 = generalRecommendations v7"
  have tr: "analysisTrace rt d = [initialVerdict, v1, v2, v3, v4, v5, v6, v7, v8]"
    by (simp add: trace_unfold v1_def v2_def v3_def v4_def v5_def v6_def v7_def v8_def Let_def)
  have fin: "analyzePerformanceData rt d = v8"
    by (simp add: analyzePerformanceData_def tr)
  have e8: "overallStatus v8 = overallStatus v7"
    by (simp add: v8_def generalRecommendations_status)
  have m7: "severity (overallStatus v6) \<le> severity (overallStatus v7)"
    unfolding v7_def by (rule podRestartAnalysis_mono)
  have m6: "severity (overallStatus v5) \<le> severity (overallStatus v6)"
    unfolding v6_def by (rule resourceUtilization_mono)
  have m5: "overallStatus v5 = overallStatus v4"
    unfolding v5_def by (rule throughputAnalysis_status)
  have m4: "severity (overallStatus v3) \<le> severity (overallStatus v4)"
    unfolding v4_def by (rule logErrorAnalysis_mono)
  have m3: "severity (overallStatus v2) \<le> severity (overallStatus v3)"
    unfolding v3_def by (rule endpointErrorAnalysis_mono)
  have c2: "severity (overallStatus v2) \<le> severity (overallStatus v7)"
    using m3 m4 m5 m6 m7 by simp
  have c1: "severity (overallStatus v1) \<le> severity (overallStatus v7)"
  proof (cases "overallStatus v1")
    case Good
    then show ?thesis by simp
  next
    case Warning
    have "overallStatus v2 = Warning"
      using latencyAnalysis_status [of d v1] Warning by (auto simp add: v2_def)
    then show ?thesis using c2 Warning by simp
  next
    case Critical
    then have "overallStatus v7 = Critical"
      unfolding v1_def v7_def by (rule restartCheck_critical)
    then show ?thesis by (simp add: severity_le_2)
  qed
  have c0: "severity (overallStatus initialVerdict) \<le> severity (overallStatus v7)"
    by (simp add: initialVerdict_def)
  show ?thesis
    unfolding fin tr using c0 c1 c2 m3 m4 m5 m6 m7 e8 by simp
qed

subsection \<open>The example payload, step by step\<close>

lemma examplePayload_fields:
  "podMetrics examplePayload = Some examplePodMetrics"
  "pm_podMetrics examplePodMetrics = Some [podA, podB]"
  "summary examplePodMetrics = None"
  "containerMetrics examplePodMetrics = None"
  "errorMetrics examplePayload = None"
  "timeRange examplePayload = None"
  "metrics examplePayload = [slowEndpoint]"
  by (simp_all add: examplePayload_def examplePodMetrics_def)

lemma example_classification:
  "classifySeries epochRuntime (Some 1000) windowExample
     = Some \<lparr>exactTime = ''3000 EST'', duringWindow = True\<rparr>"
  "classifySeries epochRuntime (Some 1000) beforeExample
     = Some \<lparr>exactTime = ''Before 1000 EST'', duringWindow = False\<rparr>"
  by (simp_all add: classifySeries_def windowExample_def beforeExample_def toNumber_def
      truthyTime_def epochRuntime_format)

lemma example_timing:
  "analyzeRestartTiming epochRuntime examplePodMetrics
     = \<lparr>own = [''api-1'' \<mapsto> \<lparr>exactTime = ''3000 EST'', duringWindow = True\<rparr>,
               ''api-2'' \<mapsto> \<lparr>exactTime = ''Before 1000 EST'', duringWindow = False\<rparr>],
        proto = None\<rparr>"
proof -
  have pl: "pointlist (seriesOf name points) = Some points" for name points
    by (simp add: seriesOf_def)
  have w: "windowExample \<noteq> []" "beforeExample \<noteq> []"
    by (simp_all add: windowExample_def beforeExample_def)
  show ?thesis
    by (simp add: analyzeRestartTiming_def examplePodMetrics_def restartSeriesStep_def
        seriesOf_name pl w example_classification dateArgument_def setTiming_def emptyTiming_def)
qed

lemma example_pods:
  "restartedDuringWindow (analyzeRestartTiming epochRuntime examplePodMetrics) podA"
  "\<not> restartedDuringWindow (analyzeRestartTiming epochRuntime examplePodMetrics) podB"
  "classifiedBefore (analyzeRestartTiming epochRuntime examplePodMetrics) podB"
  "\<not> classifiedBefore (analyzeRestartTiming epochRuntime examplePodMetrics) podA"
  by (simp_all add: example_timing restartedDuringWindow_def classifiedBefore_def podA_def
      podB_def restartedPod_def hasRestartCount_def getTiming_def)

lemma example_total: "totalRestartsOf [podA] = 5"
  by (simp add: totalRestartsOf_def restartsOrZero_def podA_def restartedPod_def)

lemma example_parse:
  "parseFloat (p95_latency slowEndpoint) = Num 1500"
  "parseIntOrZero (errors slowEndpoint) = Some 0"
  "parseIntOrZero (requests slowEndpoint) = Some 1000"
  by (simp_all add: slowEndpoint_def parseFloat_def parseIntOrZero_def parseInt_def stripSign_def
      isWhiteSpace_def isDigit_def digitsValue_def digitValue_def exponentPart_def
      scaleByPowerOfTen_def Let_def)

lemma example_steps:
  "overallStatus (restartCheck epochRuntime examplePayload v) = Critical"
  "overallStatus (latencyAnalysis examplePayload v) = Warning"
  "endpointErrorAnalysis examplePayload v = v"
  "logErrorAnalysis examplePayload v = v"
  "resourceUtilization examplePayload v = v"
  "overallStatus (podRestartAnalysis epochRuntime examplePayload v) = Critical"
proof -
  show "overallStatus (restartCheck epochRuntime examplePayload v) = Critical"
    by (simp add: restartCheck_def examplePayload_fields example_pods example_total Let_def)
  show "overallStatus (latencyAnalysis examplePayload v) = Warning"
    by (simp add: latencyAnalysis_def examplePayload_fields example_parse Let_def)
  show "endpointErrorAnalysis examplePayload v = v"
    by (simp add: endpointErrorAnalysis_def examplePayload_fields example_parse
        positiveJsInt_def Let_def)
  show "logErrorAnalysis examplePayload v = v"
    by (simp add: logErrorAnalysis_def examplePayload_fields)
  show "resourceUtilization examplePayload v = v"
    by (simp add: resourceUtilization_def examplePayload_fields)
  show "overallStatus (podRestartAnalysis epochRuntime examplePayload v) = Critical"
    by (simp add: podRestartAnalysis_def examplePayload_fields example_pods example_total
        Let_def)
qed

text \<open>
  Claim C1 says that no step lowers \<open>overallStatus\<close>. On the example payload (five
  restarts inside the window and one endpoint with a p95 of 1500 ms) the first restart
  check sets \<open>critical\<close> and the latency analysis, whose assignment is unguarded, sets it
  back to \<open>warning\<close>; the pod restart analysis restores \<open>critical\<close> at the end.
\<close>

theorem latency_step_lowers_status:
  "map overallStatus (analysisTrace epochRuntime examplePayload)
     = [Good, Critical, Warning, Warning, Warning, Warning, Warning, Critical, Critical]"
  by (simp add: trace_unfold Let_def example_steps throughputAnalysis_status
      generalRecommendations_status initialVerdict_def)

text \<open>
  Claim C10: the throughput step changes neither \<open>overallStatus\<close> nor the recommendations;
  it leaves the findings as they were or appends one finding to them. This holds from
  every state, and so for the state in which the finding generator reaches the step (the
  fifth entry of the trace) and the state in which it leaves it (the sixth).
\<close>

theorem throughput_frame:
  "analysisTrace rt d ! 5 = throughputAnalysis rt d (analysisTrace rt d ! 4)
   \<and> overallStatus (throughputAnalysis rt d v) = overallStatus v
   \<and> recommendations (throughputAnalysis rt d v) = recommendations v
   \<and> (\<exists>fs. findings (throughputAnalysis rt d v) = findings v @ fs \<and> length fs \<le> 1)"
proof -
  have step: "analysisTrace rt d ! 5 = throughputAnalysis rt d (analysisTrace rt d ! 4)"
    by (simp add: analysisTrace_def analysisSteps_def)
  show ?thesis
    using step throughputAnalysis_status throughputAnalysis_recommendations
      throughputAnalysis_findings
    by simp
qed

lemma example_throughput:
  "findings (throughputAnalysis epochRuntime examplePayload v)
     = findings v @
       [''<strong>Throughput:</strong> 1000 total requests over 30 minutes (avg: 33.33 req/min)'']"
proof -
  have fl: "\<lfloor>(30::real) + 1 / 2\<rfloor> = 30" "\<lfloor>(1000::real) / 30 * 100 + 1 / 2\<rfloor> = 3333"
    by (simp_all add: floor_eq_iff)
  have sh: "showNat 30 = ''30''" "showNat 3333 = ''3333''" "showInt 1000 = ''1000''"
    by (simp_all add: showInt_def showNat.simps digitChar_def)
  show ?thesis
    by (simp add: throughputAnalysis_def examplePayload_fields example_parse addJsInt_def
        positiveJsInt_def timeRangeMinutesOf_def showJsInt_def fixedDigits_def fl sh Let_def)
qed

theorem throughput_frame_witness:
  "overallStatus (analysisTrace epochRuntime examplePayload ! 4) = Warning
   \<and> overallStatus (analysisTrace epochRuntime examplePayload ! 5) = Warning
   \<and> recommendations (analysisTrace epochRuntime examplePayload ! 5)
       = recommendations (analysisTrace epochRuntime examplePayload ! 4)
   \<and> findings (analysisTrace epochRuntime examplePayload ! 5)
       = findings (analysisTrace epochRuntime examplePayload ! 4) @
         [''<strong>Throughput:</strong> 1000 total requests over 30 minutes (avg: 33.33 req/min)'']"
proof -
  have s4: "overallStatus (analysisTrace epochRuntime examplePayload ! 4) = Warning"
    by (simp add: trace_unfold Let_def example_steps)
  from s4 example_throughput
    throughput_frame [of epochRuntime examplePayload "analysisTrace epochRuntime examplePayload ! 4"]
  show ?thesis by simp
qed

subsection \<open>Restarts from before the window\<close>

lemma restartedDuringWindow_entry:
  "restartedDuringWindow t p \<Longrightarrow> getTiming t (podName p) = Entry e \<Longrightarrow> duringWindow e"
  by (simp add: restartedDuringWindow_def)

lemma restartedDuringWindow_not_before:
  "restartedDuringWindow t p \<Longrightarrow> \<not> classifiedBefore t p"
  by (auto simp add: restartedDuringWindow_def classifiedBefore_def split: timing_value.splits)

lemma filter_drop_before_conj:
  "filter (\<lambda>p. \<not> classifiedBefore t p \<and> restartedDuringWindow t p) pods
     = filter (restartedDuringWindow t) pods"
  by (rule filter_cong) (auto dest: restartedDuringWindow_not_before)

lemma withPods_fields:
  "metrics (withPods d pm pods) = metrics d"
  "timeRange (withPods d pm pods) = timeRange d"
  "errorMetrics (withPods d pm pods) = errorMetrics d"
  "podMetrics (withPods d pm pods) = Some (pm\<lparr>pm_podMetrics := Some pods\<rparr>)"
  by (simp_all add: withPods_def)

lemma pm_fields:
  "pm_podMetrics (pm\<lparr>pm_podMetrics := Some pods\<rparr>) = Some pods"
  "summary (pm\<lparr>pm_podMetrics := Some pods\<rparr>) = summary pm"
  "containerMetrics (pm\<lparr>pm_podMetrics := Some pods\<rparr>) = containerMetrics pm"
  by simp_all

lemma analyzeRestartTiming_pods:
  "analyzeRestartTiming rt (pm\<lparr>pm_podMetrics := x\<rparr>) = analyzeRestartTiming rt pm"
  by (simp add: analyzeRestartTiming_def)

lemma logErrorCount_withPods: "logErrorCount (withPods d pm pods) = logErrorCount d"
  unfolding logErrorCount_def withPods_fields by (rule refl)

lemma hasLogErrors_withPods: "hasLogErrors (withPods d pm pods) = hasLogErrors d"
  unfolding hasLogErrors_def logErrorCount_withPods by (rule refl)

lemma podHasHighMemory_withPods:
  assumes "podMetrics d = Some pm"
  shows "podHasHighMemory (withPods d pm pods) = podHasHighMemory d"
  unfolding podHasHighMemory_def withPods_fields assms pm_fields by simp

lemma getMainRestartCause_withPods:
  assumes "podMetrics d = Some pm"
  shows "getMainRestartCause ps (withPods d pm pods) = getMainRestartCause ps d"
  unfolding getMainRestartCause_def hasLogErrors_withPods logErrorCount_withPods
    podHasHighMemory_withPods [OF assms]
  by (rule refl)

lemma restartCheck_withPods:
  assumes "podMetrics d = Some pm" and "pm_podMetrics pm = Some pods"
  shows "restartCheck rt
           (withPods d pm (filter (\<lambda>p. \<not> classifiedBefore (analyzeRestartTiming rt pm) p) pods)) v
         = restartCheck rt d v"
  using assms
  by (simp add: restartCheck_def withPods_fields analyzeRestartTiming_pods Let_def
      filter_drop_before_conj)

lemma podRestartAnalysis_withPods:
  assumes "podMetrics d = Some pm" and "pm_podMetrics pm = Some pods"
  shows "podRestartAnalysis rt
           (withPods d pm (filter (\<lambda>p. \<not> classifiedBefore (analyzeRestartTiming rt pm) p) pods)) v
         = podRestartAnalysis rt d v"
  using assms
  by (simp add: podRestartAnalysis_def withPods_fields analyzeRestartTiming_pods Let_def
      filter_drop_before_conj getMainRestartCause_withPods [OF assms(1)] hasLogErrors_withPods)

lemma other_steps_withPods:
  "latencyAnalysis (withPods d pm pods) = latencyAnalysis d"
  "endpointErrorAnalysis (withPods d pm pods) = endpointErrorAnalysis d"
  "logErrorAnalysis (withPods d pm pods) = logErrorAnalysis d"
  "throughputAnalysis rt (withPods d pm pods) = throughputAnalysis rt d"
  unfolding latencyAnalysis_def endpointErrorAnalysis_def logErrorAnalysis_def
    throughputAnalysis_def withPods_fields
  by (rule refl)+

lemma resourceUtilization_withPods:
  assumes "podMetrics d = Some pm"
  shows "resourceUtilization (withPods d pm pods) = resourceUtilization d"
  unfolding resourceUtilization_def withPods_fields assms pm_fields by simp

text \<open>
  A pod whose entry has \<open>duringWindow = false\<close> is never among the counted pods, and
  removing all such pods from the payload changes nothing in what the finding generator
  returns.
\<close>

lemma before_window_pods_removable:
  assumes "podMetrics d = Some pm" and "pm_podMetrics pm = Some pods"
  shows "(\<forall>p \<in> set pods. classifiedBefore (analyzeRestartTiming rt pm) p
            \<longrightarrow> p \<notin> set (filter (restartedDuringWindow (analyzeRestartTiming rt pm)) pods))
     \<and> analyzePerformanceData rt
          (withPods d pm (filter (\<lambda>p. \<not> classifiedBefore (analyzeRestartTiming rt pm) p) pods))
        = analyzePerformanceData rt d"
proof -
  let ?d' = "withPods d pm (filter (\<lambda>p. \<not> classifiedBefore (analyzeRestartTiming rt pm) p) pods)"
  have steps: "analysisSteps rt ?d' = analysisSteps rt d"
    unfolding analysisSteps_def
    using restartCheck_withPods [OF assms] podRestartAnalysis_withPods [OF assms]
      resourceUtilization_withPods [OF assms(1)]
    by (auto simp add: other_steps_withPods)
  have a: "analyzePerformanceData rt ?d' = analyzePerformanceData rt d"
    by (simp add: analyzePerformanceData_def analysisTrace_def steps)
  have c: "\<forall>p \<in> set pods. classifiedBefore (analyzeRestartTiming rt pm) p
            \<longrightarrow> p \<notin> set (filter (restartedDuringWindow (analyzeRestartTiming rt pm)) pods)"
    by (auto dest: restartedDuringWindow_not_before)
  from a c show ?thesis by blast
qed

lemma before_window_pods_removable_example:
  "classifiedBefore (analyzeRestartTiming epochRuntime examplePodMetrics) podB
   \<and> filter (restartedDuringWindow (analyzeRestartTiming epochRuntime examplePodMetrics))
       [podA, podB] = [podA]
   \<and> analyzePerformanceData epochRuntime (withPods examplePayload examplePodMetrics [podA])
       = analyzePerformanceData epochRuntime examplePayload"
  using before_window_pods_removable [of examplePayload examplePodMetrics "[podA, podB]"
      epochRuntime]
  by (simp add: examplePayload_fields example_pods)

text \<open>
  Claim C3 says that the restart totals count only pods whose classification entry has
  \<open>duringWindow = true\<close>. The filter reads \<open>restartTiming[pod.podName]\<close> from a plain
  object, so for a pod named \<open>constructor\<close> it finds the inherited function, which is
  truthy and has no \<open>duringWindow\<close>. With five restarts and no restart time series the
  pod has no entry, and yet both restart steps count it: the findings report five
  restarts and the status is \<open>critical\<close>.
\<close>

theorem inherited_name_is_counted:
  "analyzeRestartTiming epochRuntime inheritedNamePodMetrics = emptyTiming
   \<and> own (analyzeRestartTiming epochRuntime inheritedNamePodMetrics) ''constructor'' = None
   \<and> getTiming (analyzeRestartTiming epochRuntime inheritedNamePodMetrics) ''constructor''
       = Inherited
   \<and> analyzePerformanceData epochRuntime inheritedNamePayload
       = \<lparr>findings =
            [''<strong>Pod Restarts:</strong> 5 total restart(s) across 1 pod(s)'',
             ''<strong>Pod Restarts Detected:</strong> 5 restart(s) during monitoring window across 1 pod(s)'',
             ''&nbsp;&nbsp;'' @ bullet @ '' constructor - 5 restarts during monitoring period'',
             ''&nbsp;&nbsp;'' @ bullet @ '' '' @ frequentMessage],
          recommendations =
            [''<strong>Frequent restarts detected:</strong> Check health check configurations and resource limits''],
          overallStatus = Critical\<rparr>"
proof -
  have t: "analyzeRestartTiming epochRuntime inheritedNamePodMetrics = emptyTiming"
    by (simp add: analyzeRestartTiming_def inheritedNamePodMetrics_def)
  have o: "own emptyTiming ''constructor'' = None"
    by (simp add: emptyTiming_def)
  have g: "getTiming emptyTiming ''constructor'' = Inherited"
    by (simp add: getTiming_def emptyTiming_def objectPrototypeKeys_def)
  have f: "podMetrics inheritedNamePayload = Some inheritedNamePodMetrics"
    "metrics inheritedNamePayload = []" "errorMetrics inheritedNamePayload = None"
    "pm_podMetrics inheritedNamePodMetrics = Some [restartedPod ''constructor'' 5]"
    "summary inheritedNamePodMetrics = None"
    "containerMetrics inheritedNamePodMetrics = None"
    by (simp_all add: inheritedNamePayload_def inheritedNamePodMetrics_def)
  have pf: "podName (restartedPod ''constructor'' 5) = ''constructor''"
    "restarts (restartedPod ''constructor'' 5) = Present 5"
    by (simp_all add: restartedPod_def)
  have c: "restartedDuringWindow emptyTiming (restartedPod ''constructor'' 5)"
    by (simp add: restartedDuringWindow_def hasRestartCount_def pf g)
  have tot: "totalRestartsOf [restartedPod ''constructor'' 5] = 5"
    by (simp add: totalRestartsOf_def restartsOrZero_def pf)
  have sh: "showInt 5 = ''5''" "showNat (Suc 0) = ''1''"
    by (simp_all add: showInt_def showNat.simps digitChar_def)
  have det: "restartDetail emptyTiming (restartedPod ''constructor'' 5)
      = ''&nbsp;&nbsp;'' @ bullet @ '' constructor - 5 restarts during monitoring period''"
    by (simp add: restartDetail_def pf g showField_def fieldGreater_def sh)
  have cause: "getMainRestartCause [restartedPod ''constructor'' 5] inheritedNamePayload
      = frequentMessage"
    by (simp add: getMainRestartCause_def sumRestarts_def addRestarts_def addJsInt_def pf
        podHasHighMemory_def f hasLogErrors_def logErrorCount_def positiveJsInt_def)
  have ne: "frequentMessage \<noteq> []" by (simp add: frequentMessage_def)
  have le: "\<not> hasLogErrors inheritedNamePayload"
    by (simp add: hasLogErrors_def logErrorCount_def f positiveJsInt_def)
  have s1: "restartCheck epochRuntime inheritedNamePayload initialVerdict
      = \<lparr>findings = [''<strong>Pod Restarts:</strong> 5 total restart(s) across 1 pod(s)''],
         recommendations = [], overallStatus = Critical\<rparr>"
    by (simp add: restartCheck_def f t c tot sh initialVerdict_def Let_def)
  have s7: "podRestartAnalysis epochRuntime inheritedNamePayload
        \<lparr>findings = fs, recommendations = [], overallStatus = Critical\<rparr>
      = \<lparr>findings = fs @
            [''<strong>Pod Restarts Detected:</strong> 5 restart(s) during monitoring window across 1 pod(s)'',
             ''&nbsp;&nbsp;'' @ bullet @ '' constructor - 5 restarts during monitoring period'',
             ''&nbsp;&nbsp;'' @ bullet @ '' '' @ frequentMessage],
          recommendations =
            [''<strong>Frequent restarts detected:</strong> Check health check configurations and resource limits''],
          overallStatus = Critical\<rparr>" for fs
    by (simp add: podRestartAnalysis_def f t c tot sh det cause ne le pf fieldAtLeast_def Let_def)
  have mid: "latencyAnalysis inheritedNamePayload v = v"
    "endpointErrorAnalysis inheritedNamePayload v = v"
    "logErrorAnalysis inheritedNamePayload v = v"
    "throughputAnalysis epochRuntime inheritedNamePayload v = v"
    "resourceUtilization inheritedNamePayload v = v" for v
    by (simp_all add: latencyAnalysis_def endpointErrorAnalysis_def logErrorAnalysis_def
        throughputAnalysis_def resourceUtilization_def f)
  have r: "analyzePerformanceData epochRuntime inheritedNamePayload
       = \<lparr>findings =
            [''<strong>Pod Restarts:</strong> 5 total restart(s) across 1 pod(s)'',
             ''<strong>Pod Restarts Detected:</strong> 5 restart(s) during monitoring window across 1 pod(s)'',
             ''&nbsp;&nbsp;'' @ bullet @ '' constructor - 5 restarts during monitoring period'',
             ''&nbsp;&nbsp;'' @ bullet @ '' '' @ frequentMessage],
          recommendations =
            [''<strong>Frequent restarts detected:</strong> Check health check configurations and resource limits''],
          overallStatus = Critical\<rparr>"
    by (simp add: analyzePerformanceData_def analysisTrace_def analysisSteps_def s1 mid s7
        generalRecommendations_def)
  from t o g r show ?thesis by simp
qed

subsection \<open>The two bodies of the summary helper\<close>

text \<open>
  Claim C8: the two bodies of \<open>generateSummaryObservations\<close> are not the same function.
  For a pod with two restarts and no restart time series, hence no classification entry,
  the first body counts the pod for the window and reports its restarts; the second
  body counts no pod and reports nothing. This holds whatever the date functions of the
  host are.
\<close>

theorem summary_bodies_disagree:
  "windowPods notBeforeWindow rt untimedRestartPayload = [restartedPod ''api-1'' 2]
   \<and> windowPods restartedDuringWindow rt untimedRestartPayload = []
   \<and> generateSummaryObservations_first rt untimedRestartPayload
       = [''Pod Restarts: 2 restart(s) across 1 pod(s) during monitoring window'']
   \<and> generateSummaryObservations_second rt untimedRestartPayload = []
   \<and> generateSummaryObservations_first rt untimedRestartPayload
       \<noteq> generateSummaryObservations_second rt untimedRestartPayload"
proof -
  have t: "analyzeRestartTiming rt
      \<lparr>pm_podMetrics = Some [restartedPod ''api-1'' 2], summary = None,
       timeSeries = None, containerMetrics = None\<rparr> = emptyTiming"
    by (simp add: analyzeRestartTiming_def)
  have g: "getTiming emptyTiming (podName (restartedPod ''api-1'' 2)) = NoValue"
    "hasRestartCount (restartedPod ''api-1'' 2)"
    by (simp_all add: getTiming_def emptyTiming_def objectPrototypeKeys_def restartedPod_def
        hasRestartCount_def)
  have p1: "windowPods notBeforeWindow rt untimedRestartPayload = [restartedPod ''api-1'' 2]"
    by (simp add: windowPods_def untimedRestartPayload_def t notBeforeWindow_def g)
  have p2: "windowPods restartedDuringWindow rt untimedRestartPayload = []"
    by (simp add: windowPods_def untimedRestartPayload_def t restartedDuringWindow_def g)
  have f: "endpointMetrics untimedRestartPayload = None" "\<not> hasLogErrors untimedRestartPayload"
    by (simp_all add: untimedRestartPayload_def hasLogErrors_def logErrorCount_def
        positiveJsInt_def)
  have sh: "showInt 2 = ''2''" "showNat (Suc 0) = ''1''"
    by (simp_all add: showInt_def showNat.simps digitChar_def)
  have o1: "generateSummaryObservations_first rt untimedRestartPayload
       = [''Pod Restarts: 2 restart(s) across 1 pod(s) during monitoring window'']"
    by (simp add: generateSummaryObservations_first_def p1 summaryObservations_def f
        totalRestartsOf_def restartsOrZero_def restartedPod_def sh Let_def)
  have o2: "generateSummaryObservations_second rt untimedRestartPayload = []"
    by (simp add: generateSummaryObservations_second_def p2 summaryObservations_def f
        totalRestartsOf_def Let_def)
  from p1 p2 o1 o2 show ?thesis by simp
qed

theorem summary_bodies_disagree_witness:
  "generateSummaryObservations_first epochRuntime untimedRestartPayload
     \<noteq> generateSummaryObservations_second epochRuntime untimedRestartPayload"
  using summary_bodies_disagree [of epochRuntime]
  by simp

end
